theory Spec2Isabelle
  imports Complex_Main "HOL-Library.Char_ord" "HOL-Library.List_Lexorder"
begin

section \<open>Tables, series and cells\<close>

text \<open>
  The program is written against pandas. A cell of a table is a floating-point number:
  here a real number, one of the two infinities, or \<open>None\<close> for NaN ("undefined").
  Arithmetic follows IEEE 754 on these values (an infinity minus itself, zero times an
  infinity and zero by zero are NaN, any other quotient by zero is an infinity) and is
  exact on the real numbers: rounding, overflow and the sign of zero are outside the
  model.

  A \<open>Timestamp\<close> is a day number. A \<open>DataFrame\<close> is a labelled table: the row labels in
  order, the column labels in order, the kind of the values of each column (numeric, that
  is \<open>float64\<close> or \<open>int64\<close>, or \<open>object\<close> when the cells are boxed Python numbers) and
  the cell under each pair of labels. A \<open>Series\<close> is an optional name and the list of its
  (date, value) points in index order.
\<close>

type_synonym date = int

datatype xreal = Fin real | Infinity bool

type_synonym cell = "xreal option"

datatype dtype = Float64 | Object

record frame =
  index :: "date list"
  columns :: "string list"
  dtypes :: "string \<Rightarrow> dtype"
  cell :: "date \<Rightarrow> string \<Rightarrow> cell"

record series =
  name :: "string option"
  points :: "(date \<times> cell) list"

datatype error = TypeError string | ValueError | ZeroDivisionError | KeyError | OtherError string

fun xadd :: "xreal \<Rightarrow> xreal \<Rightarrow> cell" where
  "xadd (Fin x) (Fin y) = Some (Fin (x + y))"
| "xadd (Fin x) (Infinity t) = Some (Infinity t)"
| "xadd (Infinity s) (Fin y) = Some (Infinity s)"
| "xadd (Infinity s) (Infinity t) = (if s = t then Some (Infinity s) else None)"

fun xneg :: "xreal \<Rightarrow> xreal" where
  "xneg (Fin x) = Fin (- x)"
| "xneg (Infinity s) = Infinity (\<not> s)"

fun xmul :: "xreal \<Rightarrow> xreal \<Rightarrow> cell" where
  "xmul (Fin x) (Fin y) = Some (Fin (x * y))"
| "xmul (Fin x) (Infinity t) = (if x = 0 then None else Some (Infinity (t = (0 < x))))"
| "xmul (Infinity s) (Fin y) = (if y = 0 then None else Some (Infinity (s = (0 < y))))"
| "xmul (Infinity s) (Infinity t) = Some (Infinity (s = t))"

fun xdiv :: "xreal \<Rightarrow> xreal \<Rightarrow> cell" where
  "xdiv (Fin x) (Fin y) =
     (if y = 0 then (if x = 0 then None else Some (Infinity (0 < x))) else Some (Fin (x / y)))"
| "xdiv (Fin x) (Infinity t) = Some (Fin 0)"
| "xdiv (Infinity s) (Fin y) = Some (Infinity (s = (0 \<le> y)))"
| "xdiv (Infinity s) (Infinity t) = None"

definition fadd :: "cell \<Rightarrow> cell \<Rightarrow> cell" where
  "fadd a b = (case a of None \<Rightarrow> None | Some x \<Rightarrow> (case b of None \<Rightarrow> None | Some y \<Rightarrow> xadd x y))"

definition fsub :: "cell \<Rightarrow> cell \<Rightarrow> cell" where
  "fsub a b = fadd a (map_option xneg b)"

definition fmul :: "cell \<Rightarrow> cell \<Rightarrow> cell" where
  "fmul a b = (case a of None \<Rightarrow> None | Some x \<Rightarrow> (case b of None \<Rightarrow> None | Some y \<Rightarrow> xmul x y))"

definition fdiv :: "cell \<Rightarrow> cell \<Rightarrow> cell" where
  "fdiv a b = (case a of None \<Rightarrow> None | Some x \<Rightarrow> (case b of None \<Rightarrow> None | Some y \<Rightarrow> xdiv x y))"

text \<open>
  \<open>cell_at\<close> reads a table by labels the way \<open>reindex\<close> does: a label the table does not
  have gives NaN.
\<close>

definition cell_at :: "frame \<Rightarrow> date \<Rightarrow> string \<Rightarrow> cell" where
  "cell_at df d c = (if d \<in> set (index df) \<and> c \<in> set (columns df) then cell df d c else None)"

text \<open>\<open>rows\<close> lists the cells of a table row by row, as \<open>df.values\<close> does.\<close>

definition rows :: "frame \<Rightarrow> cell list list" where
  "rows df = map (\<lambda>d. map (cell_at df d) (columns df)) (index df)"

text \<open>
  Binary operations between tables (\<open>mul\<close>, \<open>div\<close>) align both axes first: equal label
  lists are kept as they are, different ones are replaced by their sorted union, and a
  cell missing on either side is NaN. A column of the result holds boxed values as soon
  as the column of one operand does.
\<close>

definition align_union :: "'a::linorder list \<Rightarrow> 'a list \<Rightarrow> 'a list" where
  "align_union xs ys = (if xs = ys then xs else sort (remdups (xs @ ys)))"

definition result_dtype :: "dtype \<Rightarrow> dtype \<Rightarrow> dtype" where
  "result_dtype a b = (if a = Object \<or> b = Object then Object else Float64)"

definition dtype_at :: "frame \<Rightarrow> string \<Rightarrow> dtype" where
  "dtype_at df c = (if c \<in> set (columns df) then dtypes df c else Float64)"

definition frame_binop :: "(cell \<Rightarrow> cell \<Rightarrow> cell) \<Rightarrow> frame \<Rightarrow> frame \<Rightarrow> frame" where
  "frame_binop f a b =
     \<lparr>index = align_union (index a) (index b),
      columns = align_union (columns a) (columns b),
      dtypes = (\<lambda>c. result_dtype (dtype_at a c) (dtype_at b c)),
      cell = (\<lambda>d c. f (cell_at a d c) (cell_at b d c))\<rparr>"

text \<open>\<open>shift(1)\<close> moves every row one position down; the first row becomes NaN.\<close>

fun prev_label :: "date list \<Rightarrow> date \<Rightarrow> date option" where
  "prev_label [] d = None"
| "prev_label [x] d = None"
| "prev_label (x # y # ys) d = (if y = d then Some x else prev_label (y # ys) d)"

definition shift :: "frame \<Rightarrow> frame" where
  "shift df = df\<lparr>cell := (\<lambda>d c. case prev_label (index df) d of
                                   None \<Rightarrow> None | Some p \<Rightarrow> cell_at df p c)\<rparr>"

text \<open>\<open>diff()\<close> is the table minus its shift.\<close>

definition diff :: "frame \<Rightarrow> frame" where
  "diff df = df\<lparr>cell := (\<lambda>d c. fsub (cell_at df d c) (cell_at (shift df) d c))\<rparr>"

text \<open>
  A quotient of two numeric columns never fails. On boxed values the quotient is
  Python's, which raises \<open>ZeroDivisionError\<close> as soon as one divisor is zero, whatever
  the dividend. \<open>zero_divisor\<close> tells whether a table has a zero in a column of boxed
  values, in a row that is the previous row of another one, which is where
  \<open>df.diff().div(df.shift(1))\<close> divides by it.
\<close>

definition zero_divisor :: "frame \<Rightarrow> bool" where
  "zero_divisor df =
     list_ex (\<lambda>d. list_ex (\<lambda>c. dtypes df c = Object \<and> cell_at (shift df) d c = Some (Fin 0))
                   (columns df))
       (index df)"

text \<open>\<open>sum(axis=1, skipna=False)\<close>: the sum of each row over all columns, NaN included.\<close>

definition sum_axis1 :: "frame \<Rightarrow> series" where
  "sum_axis1 df =
     \<lparr>name = None,
      points = map (\<lambda>d. (d, foldl fadd (Some (Fin 0)) (map (cell_at df d) (columns df))))
                 (index df)\<rparr>"

text \<open>
  \<open>cumprod()\<close> skips NaN: a NaN entry counts as the factor 1 in the running product and
  the result is NaN at that position. The running product itself is a floating-point
  value, so it turns NaN, and stays NaN, once an infinity meets a zero factor.
\<close>

fun cumprod_from :: "cell \<Rightarrow> (date \<times> cell) list \<Rightarrow> (date \<times> cell) list" where
  "cumprod_from acc [] = []"
| "cumprod_from acc ((d, None) # xs) = (d, None) # cumprod_from acc xs"
| "cumprod_from acc ((d, Some x) # xs) =
     (d, fmul acc (Some x)) # cumprod_from (fmul acc (Some x)) xs"

definition cumprod :: "series \<Rightarrow> series" where
  "cumprod s = s\<lparr>points := cumprod_from (Some (Fin 1)) (points s)\<rparr>"

definition add_scalar :: "series \<Rightarrow> real \<Rightarrow> series" where
  "add_scalar s k = s\<lparr>points := map (\<lambda>(d, v). (d, fadd v (Some (Fin k)))) (points s)\<rparr>"

definition rename :: "series \<Rightarrow> string \<Rightarrow> series" where
  "rename s n = s\<lparr>name := Some n\<rparr>"


section \<open>Date arguments\<close>

text \<open>
  A date argument of the public operations is a \<open>Timestamp\<close>, a string or an integer;
  an object of another type is represented by its \<open>str\<close>. A string is its list of
  code points; the character type holds the code points below 256. \<open>str_int\<close> is
  Python's \<open>str\<close> on an integer, and \<open>isdigit\<close> is \<open>str.isdigit\<close> on these code points:
  the ten ASCII digits and the superscripts two, three and one.
\<close>

datatype arg = Timestamp date | PyStr string | PyInt int

definition digit_char :: "int \<Rightarrow> char" where
  "digit_char n = ''0123456789'' ! nat (n mod 10)"

function str_digits :: "int \<Rightarrow> string" where
  "str_digits n =
     (if n < 10 then [digit_char n] else str_digits (n div 10) @ [digit_char (n mod 10)])"
  by pat_completeness auto
termination
  by (relation "measure nat") auto

declare str_digits.simps [simp del]

definition str_int :: "int \<Rightarrow> string" where
  "str_int i = (if i < 0 then CHR ''-'' # str_digits (- i) else str_digits i)"

definition ascii_digit :: "char \<Rightarrow> bool" where
  "ascii_digit ch = (ch \<in> set ''0123456789'')"

definition isdigit :: "char \<Rightarrow> bool" where
  "isdigit ch = (ascii_digit ch \<or> ch \<in> set [CHR 0xB2, CHR 0xB3, CHR 0xB9])"

text \<open>
  What pandas does is a parameter of the model, in two functions.
  \<open>to_datetime\<close> is \<open>pd.to_datetime(arg, format='%Y%m%d')\<close> on a string: it raises, or
  gives a timestamp, which may be \<open>NaT\<close>. \<open>getitem_slice\<close> is \<open>series[start:end]\<close> for
  bounds that are not two proper timestamps: it raises or gives a series.
\<close>

datatype timestamp = Day date | NaT

datatype bound = Stamp timestamp | Raw arg

record pandas =
  to_datetime :: "string \<Rightarrow> error + timestamp"
  getitem_slice :: "series \<Rightarrow> bound \<Rightarrow> bound \<Rightarrow> error + series"

text \<open>
  \<open>try_convert_date_time\<close> returns a \<open>Timestamp\<close> unchanged; anything else is turned
  into a string, stripped of every character that is not a digit and handed to
  \<open>to_datetime\<close>. A \<open>ValueError\<close> of the parser becomes the result \<open>False\<close>, here
  \<open>Inr None\<close>; any other exception passes.
\<close>

definition parse_digits :: "pandas \<Rightarrow> string \<Rightarrow> error + timestamp option" where
  "parse_digits pd s =
     (case to_datetime pd s of
        Inl ValueError \<Rightarrow> Inr None
      | Inl e \<Rightarrow> Inl e
      | Inr t \<Rightarrow> Inr (Some t))"

definition try_convert_date_time :: "pandas \<Rightarrow> arg \<Rightarrow> error + timestamp option" where
  "try_convert_date_time pd a =
     (case a of
        Timestamp t \<Rightarrow> Inr (Some (Day t))
      | PyStr s \<Rightarrow> parse_digits pd (filter isdigit s)
      | PyInt i \<Rightarrow> parse_digits pd (filter isdigit (str_int i)))"

text \<open>
  The wrapper of \<open>date_checker\<close> converts the positional arguments after \<open>self\<close> in
  order and raises \<open>TypeError\<close> at the first one whose conversion is \<open>False\<close>
  (every timestamp, \<open>NaT\<close> too, is true). It then calls the wrapped method with the
  converted positional arguments and with the keyword arguments as they are: a date
  passed by keyword is neither converted nor checked.
\<close>

definition date_format_message :: string where
  "date_format_message =
     ''Incorrect format of date, use:'' @ [CHR 0x0A] @
     ''1)int - 8 digits'' @ [CHR 0x0A] @
     ''2)str - 8+ (with/without seps) characters (YYYYMMDD) with any separators''"

fun convert_args :: "pandas \<Rightarrow> arg list \<Rightarrow> error + timestamp list" where
  "convert_args pd [] = Inr []"
| "convert_args pd (a # as) =
     (case try_convert_date_time pd a of
        Inl e \<Rightarrow> Inl e
      | Inr None \<Rightarrow> Inl (TypeError date_format_message)
      | Inr (Some t) \<Rightarrow> (case convert_args pd as of
                           Inl e \<Rightarrow> Inl e
                         | Inr ts \<Rightarrow> Inr (t # ts)))"

definition date_checker ::
  "pandas \<Rightarrow> ('s \<Rightarrow> bound list \<Rightarrow> (string \<times> arg) list \<Rightarrow> (error + 'r) \<times> 's) \<Rightarrow>
   's \<Rightarrow> arg list \<Rightarrow> (string \<times> arg) list \<Rightarrow> (error + 'r) \<times> 's" where
  "date_checker pd func self args kwargs =
     (case convert_args pd args of
        Inl e \<Rightarrow> (Inl e, self)
      | Inr ts \<Rightarrow> func self (map Stamp ts) kwargs)"

text \<open>
  How Python binds the two parameters \<open>start_date\<close> and \<open>end_date\<close> of a wrapped
  method: positional values first, the others by keyword; a parameter without a value
  or with two, and a keyword that names no parameter, raise \<open>TypeError\<close> before the
  body runs. A \<open>Timestamp\<close> passed by keyword is a timestamp like a converted one.
\<close>

definition bound_of_keyword :: "arg \<Rightarrow> bound" where
  "bound_of_keyword a = (case a of Timestamp t \<Rightarrow> Stamp (Day t) | _ \<Rightarrow> Raw a)"

definition call_message :: string where
  "call_message = ''arguments do not match the parameters''"

definition bind_dates :: "bound list \<Rightarrow> (string \<times> arg) list \<Rightarrow> error + (bound \<times> bound)" where
  "bind_dates positional kwargs =
     (if \<not> distinct (map fst kwargs) \<or>
         list_ex (\<lambda>k. k \<noteq> ''start_date'' \<and> k \<noteq> ''end_date'') (map fst kwargs)
      then Inl (TypeError call_message)
      else (case positional of
              [] \<Rightarrow> (case (map_of kwargs ''start_date'', map_of kwargs ''end_date'') of
                        (Some s, Some e) \<Rightarrow> Inr (bound_of_keyword s, bound_of_keyword e)
                      | _ \<Rightarrow> Inl (TypeError call_message))
            | [s] \<Rightarrow> (case (map_of kwargs ''start_date'', map_of kwargs ''end_date'') of
                         (None, Some e) \<Rightarrow> Inr (s, bound_of_keyword e)
                       | _ \<Rightarrow> Inl (TypeError call_message))
            | [s, e] \<Rightarrow> (if kwargs = [] then Inr (s, e) else Inl (TypeError call_message))
            | _ \<Rightarrow> Inl (TypeError call_message)))"

text \<open>
  \<open>s[start:end]\<close> with two proper timestamps is a slice by label. On a sorted index
  pandas finds both bounds by binary search, the left one before the first label not
  below \<open>start\<close> and the right one after the last label not above \<open>end\<close>, and returns the
  positions in between. With any other bound the slice is the parameter.
\<close>

definition searchsorted_left :: "date list \<Rightarrow> date \<Rightarrow> nat" where
  "searchsorted_left xs v = length (takeWhile (\<lambda>x. x < v) xs)"

definition searchsorted_right :: "date list \<Rightarrow> date \<Rightarrow> nat" where
  "searchsorted_right xs v = length (takeWhile (\<lambda>x. x \<le> v) xs)"

definition slice_labels :: "pandas \<Rightarrow> series \<Rightarrow> bound \<Rightarrow> bound \<Rightarrow> error + series" where
  "slice_labels pd s start_date end_date =
     (case (start_date, end_date) of
        (Stamp (Day a), Stamp (Day b)) \<Rightarrow>
          (let lo = searchsorted_left (map fst (points s)) a;
               hi = searchsorted_right (map fst (points s)) b
           in Inr (s\<lparr>points := drop lo (take hi (points s))\<rparr>))
      | _ \<Rightarrow> getitem_slice pd s start_date end_date)"

text \<open>
  Modelled from the spec: \<open>pd.to_datetime\<close> with the format \<open>%Y%m%d\<close> is missing from
  the sources. The spec's Date Normalizer accepts exactly 8 digits that form a valid
  calendar date YYYYMMDD and rejects every other digit sequence. The day number counts
  days from 1970-01-01 in the proleptic Gregorian calendar.
\<close>

definition digit_val :: "char \<Rightarrow> nat" where
  "digit_val ch = (of_char ch - 48) mod 10"

definition nat_of_digits :: "string \<Rightarrow> nat" where
  "nat_of_digits s = foldl (\<lambda>n ch. 10 * n + digit_val ch) 0 s"

definition is_leap :: "nat \<Rightarrow> bool" where
  "is_leap y = (y mod 4 = 0 \<and> (y mod 100 \<noteq> 0 \<or> y mod 400 = 0))"

definition days_in_month :: "nat \<Rightarrow> nat \<Rightarrow> nat" where
  "days_in_month y m =
     (if m = 2 then (if is_leap y then 29 else 28)
      else if m = 4 \<or> m = 6 \<or> m = 9 \<or> m = 11 then 30 else 31)"

definition days_from_civil :: "nat \<Rightarrow> nat \<Rightarrow> nat \<Rightarrow> int" where
  "days_from_civil y m d =
     (let y' = (if m \<le> 2 then int y - 1 else int y);
          era = y' div 400;
          yoe = y' - era * 400;
          doy = (153 * (if m > 2 then int m - 3 else int m + 9) + 2) div 5 + int d - 1;
          doe = yoe * 365 + yoe div 4 - yoe div 100 + doy
      in era * 146097 + doe - 719468)"

definition to_datetime_Ymd :: "string \<Rightarrow> error + timestamp" where
  "to_datetime_Ymd s =
     (if length s = 8 \<and> list_all ascii_digit s then
        (let y = nat_of_digits (take 4 s);
             m = nat_of_digits (take 2 (drop 4 s));
             d = nat_of_digits (drop 6 s)
         in if 1 \<le> y \<and> 1 \<le> m \<and> m \<le> 12 \<and> 1 \<le> d \<and> d \<le> days_in_month y m
            then Inr (Day (days_from_civil y m d)) else Inl ValueError)
      else Inl ValueError)"


section \<open>The object: raw tables and cached derived tables\<close>

text \<open>
  \<open>_df_raw\<close> holds the four raw tables, each absent (\<open>None\<close>) or present. The currency
  definition maps an asset identifier to its currency code, one row per asset. The four
  other fields of \<open>FormalData\<close> cache the derived tables. A method that can raise
  returns its exception or its value together with the object as the call left it:
  what was stored before the exception stays stored.
\<close>

record raw_tables =
  currencies :: "(string \<times> string) list option"
  exchanges :: "frame option"
  prices :: "frame option"
  weights :: "frame option"

record state =
  df_raw :: raw_tables
  df_asset :: "frame option"
  df_currency :: "frame option"
  df_currency_raw :: "frame option"
  df_total :: "frame option"

text \<open>
  The wrapper of \<open>df_checker\<close> calls the wrapped function only when one of its arguments
  is a table or a series and returns \<open>None\<close> otherwise. It turns a \<open>KeyError\<close> of the
  wrapped function into \<open>None\<close> and lets every other exception pass.
\<close>

definition df_checker :: "('a \<Rightarrow> error + 'b option) \<Rightarrow> 'a option \<Rightarrow> error + 'b option" where
  "df_checker func a =
     (case a of
        None \<Rightarrow> Inr None
      | Some df \<Rightarrow> (case func df of Inl KeyError \<Rightarrow> Inr None | r \<Rightarrow> r))"

definition get_an_attitude :: "frame option \<Rightarrow> error + frame option" where
  "get_an_attitude =
     df_checker (\<lambda>df. if zero_divisor df then Inl ZeroDivisionError
                      else Inr (Some (frame_binop fdiv (diff df) (shift df))))"

text \<open>
  \<open>__get_currency_raw\<close>: the right join of the transposed exchange table on the
  \<open>currency\<close> column gives one column per row of the currency definition, holding the
  exchange column of that asset's currency, or NaN when there is none. The transposed
  table holds the currency codes beside the rates, so its values are boxed. The columns
  that are NaN at every date are then filled with 1, which makes them numeric columns.
\<close>

definition merge_df :: "(string \<times> string) list \<Rightarrow> frame \<Rightarrow> frame" where
  "merge_df currency_df exchanges_df =
     \<lparr>index = index exchanges_df,
      columns = map fst currency_df,
      dtypes = (\<lambda>a. Object),
      cell = (\<lambda>d a. case map_of currency_df a of
                        None \<Rightarrow> None
                      | Some cur \<Rightarrow> cell_at exchanges_df d cur)\<rparr>"

definition new_columns :: "frame \<Rightarrow> string list" where
  "new_columns m = filter (\<lambda>a. list_all (\<lambda>d. cell_at m d a = None) (index m)) (columns m)"

definition fillna :: "cell \<Rightarrow> real \<Rightarrow> cell" where
  "fillna v k = (case v of None \<Rightarrow> Some (Fin k) | Some x \<Rightarrow> Some x)"

definition get_currency_raw :: "state \<Rightarrow> frame option" where
  "get_currency_raw self =
     (case currencies (df_raw self) of
        None \<Rightarrow> None
      | Some currency_df \<Rightarrow>
          (case exchanges (df_raw self) of
             None \<Rightarrow> None
           | Some exchanges_df \<Rightarrow>
               (let m = merge_df currency_df exchanges_df
                in Some (m\<lparr>dtypes := (\<lambda>a. if a \<in> set (new_columns m) then Float64
                                             else Object),
                           cell := (\<lambda>d a. if a \<in> set (new_columns m)
                                           then fillna (cell_at m d a) 1
                                           else cell_at m d a)\<rparr>))))"

definition get_total_raw :: "state \<Rightarrow> frame option \<times> state" where
  "get_total_raw self =
     (case prices (df_raw self) of
        None \<Rightarrow> (None, self)
      | Some prices_df \<Rightarrow>
          (let self' = (if df_currency_raw self = None
                        then self\<lparr>df_currency_raw := get_currency_raw self\<rparr> else self)
           in case df_currency_raw self' of
                None \<Rightarrow> (None, self')
              | Some currency_raw \<Rightarrow> (Some (frame_binop fmul prices_df currency_raw), self')))"

definition generate_asset :: "state \<Rightarrow> (error + unit) \<times> state" where
  "generate_asset self =
     (if df_asset self = None
      then (case get_an_attitude (prices (df_raw self)) of
              Inl e \<Rightarrow> (Inl e, self)
            | Inr t \<Rightarrow> (Inr (), self\<lparr>df_asset := t\<rparr>))
      else (Inr (), self))"

definition generate_currency :: "state \<Rightarrow> (error + unit) \<times> state" where
  "generate_currency self =
     (let self' = (if df_currency_raw self = None
                   then self\<lparr>df_currency_raw := get_currency_raw self\<rparr> else self)
      in if df_currency self' = None
         then (case get_an_attitude (df_currency_raw self') of
                 Inl e \<Rightarrow> (Inl e, self')
               | Inr t \<Rightarrow> (Inr (), self'\<lparr>df_currency := t\<rparr>))
         else (Inr (), self'))"

definition generate_total :: "state \<Rightarrow> (error + unit) \<times> state" where
  "generate_total self =
     (if df_total self = None
      then (let (total_raw, self') = get_total_raw self
            in case get_an_attitude total_raw of
                 Inl e \<Rightarrow> (Inl e, self')
               | Inr t \<Rightarrow> (Inr (), self'\<lparr>df_total := t\<rparr>))
      else (Inr (), self))"

subsection \<open>PortfolioData\<close>

definition get_a_portfolio :: "state \<Rightarrow> frame option \<Rightarrow> error + series option" where
  "get_a_portfolio self =
     df_checker (\<lambda>df. case weights (df_raw self) of
                         None \<Rightarrow> Inr None
                       | Some weights_df \<Rightarrow>
                           Inr (Some (sum_axis1 (frame_binop fmul df weights_df))))"

definition get_asset_portfolio :: "state \<Rightarrow> (error + series option) \<times> state" where
  "get_asset_portfolio self =
     (case generate_asset self of
        (Inl e, self') \<Rightarrow> (Inl e, self')
      | (Inr u, self') \<Rightarrow> (get_a_portfolio self' (df_asset self'), self'))"

definition get_currency_portfolio :: "state \<Rightarrow> (error + series option) \<times> state" where
  "get_currency_portfolio self =
     (case generate_currency self of
        (Inl e, self') \<Rightarrow> (Inl e, self')
      | (Inr u, self') \<Rightarrow> (get_a_portfolio self' (df_currency self'), self'))"

definition get_total_portfolio :: "state \<Rightarrow> (error + series option) \<times> state" where
  "get_total_portfolio self =
     (case generate_total self of
        (Inl e, self') \<Rightarrow> (Inl e, self')
      | (Inr u, self') \<Rightarrow> (get_a_portfolio self' (df_total self'), self'))"

subsection \<open>PortfolioPerformanceData\<close>

definition portfolio_performance ::
  "pandas \<Rightarrow> series option \<Rightarrow> bound \<Rightarrow> bound \<Rightarrow> string \<Rightarrow> error + series option" where
  "portfolio_performance pd df start_date end_date nm =
     df_checker (\<lambda>s. case slice_labels pd (rename (cumprod (add_scalar s 1)) nm)
                             start_date end_date of
                        Inl e \<Rightarrow> Inl e
                      | Inr r \<Rightarrow> Inr (Some r)) df"

text \<open>
  A public operation: the wrapper of \<open>date_checker\<close> around a body that binds the two
  dates, evaluates the portfolio property, which fills the caches, and then computes
  the performance.
\<close>

definition performance_method ::
  "pandas \<Rightarrow> (state \<Rightarrow> (error + series option) \<times> state) \<Rightarrow> string \<Rightarrow>
   state \<Rightarrow> bound list \<Rightarrow> (string \<times> arg) list \<Rightarrow> (error + series option) \<times> state" where
  "performance_method pd portfolio nm self positional kwargs =
     (case bind_dates positional kwargs of
        Inl e \<Rightarrow> (Inl e, self)
      | Inr (start_date, end_date) \<Rightarrow>
          (case portfolio self of
             (Inl e, self') \<Rightarrow> (Inl e, self')
           | (Inr pf, self') \<Rightarrow> (portfolio_performance pd pf start_date end_date nm, self')))"

definition calculate_asset_performance ::
  "pandas \<Rightarrow> state \<Rightarrow> arg list \<Rightarrow> (string \<times> arg) list \<Rightarrow> (error + series option) \<times> state" where
  "calculate_asset_performance pd =
     date_checker pd (performance_method pd get_asset_portfolio ''Pt'')"

definition calculate_currency_performance ::
  "pandas \<Rightarrow> state \<Rightarrow> arg list \<Rightarrow> (string \<times> arg) list \<Rightarrow> (error + series option) \<times> state" where
  "calculate_currency_performance pd =
     date_checker pd (performance_method pd get_currency_portfolio ''CPt'')"

definition calculate_total_performance ::
  "pandas \<Rightarrow> state \<Rightarrow> arg list \<Rightarrow> (string \<times> arg) list \<Rightarrow> (error + series option) \<times> state" where
  "calculate_total_performance pd =
     date_checker pd (performance_method pd get_total_portfolio ''TPt'')"

subsection \<open>The constructor\<close>

text \<open>
  What \<open>read_csv\<close> hands to the constructor for a date-indexed file: a table whose first
  column parsed as dates, or one whose index stayed unparsed (a corrupted index, on which
  \<open>pd.to_datetime\<close> raises \<open>ValueError\<close>). A file that does not exist is \<open>None\<close>. The
  constructor makes the cells of a date-indexed table numeric (\<open>pd.to_numeric\<close>).
\<close>

datatype csv_table = Dated frame | Undated

record loaded =
  currencies_csv :: "(string \<times> string) list option"
  exchanges_csv :: "csv_table option"
  prices_csv :: "csv_table option"
  weights_csv :: "csv_table option"

text \<open>
  \<open>_get_full_range_for_dates\<close> walks the tables whose index is named \<open>dates\<close> (the three
  below, in the order of the dictionary), collects the parsed ones and the keys of the
  corrupted ones, and spans the daily range from the least to the greatest date of all
  the parsed indexes. With parsed tables that have no row at all the bounds are \<open>NaT\<close>
  and \<open>date_range\<close> raises.
\<close>

definition get_full_range_for_dates ::
  "(string \<times> csv_table option) list \<Rightarrow> error + (date list option \<times> string list)" where
  "get_full_range_for_dates items =
     (let frames = [f. (key, Some (Dated f)) \<leftarrow> items];
          bad_frames = [key. (key, Some Undated) \<leftarrow> items]
      in if frames = [] then Inr (None, bad_frames)
         else (let concat_frame = concat (map index frames)
               in if concat_frame = [] then Inl ValueError
                  else Inr (Some [Min (set concat_frame) .. Max (set concat_frame)],
                            bad_frames)))"

text \<open>\<open>reindex\<close> refuses a table that lists a date twice.\<close>

definition reindex :: "frame \<Rightarrow> date list \<Rightarrow> error + frame" where
  "reindex df idx =
     (if distinct (index df)
      then Inr \<lparr>index = idx, columns = columns df, dtypes = dtypes df, cell = cell_at df\<rparr>
      else Inl ValueError)"

text \<open>
  \<open>_normalize_a_frame\<close> (\<open>fillna(method='ffill')\<close>): every cell takes the last value that
  is not NaN at or above it in its column.
\<close>

fun upto_label :: "date list \<Rightarrow> date \<Rightarrow> date list" where
  "upto_label [] d = []"
| "upto_label (x # xs) d = (if x = d then [x] else x # upto_label xs d)"

definition last_valid :: "cell list \<Rightarrow> cell" where
  "last_valid vs = foldl (\<lambda>acc v. case v of None \<Rightarrow> acc | Some x \<Rightarrow> Some x) None vs"

definition normalize_a_frame :: "frame \<Rightarrow> frame" where
  "normalize_a_frame df =
     df\<lparr>cell := (\<lambda>d c. last_valid (map (\<lambda>d'. cell_at df d' c) (upto_label (index df) d)))\<rparr>"

definition reindex_or_drop ::
  "date list option \<Rightarrow> csv_table option \<Rightarrow> error + frame option" where
  "reindex_or_drop general_index t =
     (case t of
        None \<Rightarrow> Inr None
      | Some Undated \<Rightarrow> Inr None
      | Some (Dated df) \<Rightarrow>
          (case general_index of
             None \<Rightarrow> Inr None
           | Some idx \<Rightarrow>
               (case reindex (df\<lparr>dtypes := (\<lambda>c. Float64)\<rparr>) idx of
                  Inl e \<Rightarrow> Inl e
                | Inr r \<Rightarrow> Inr (Some (normalize_a_frame r)))))"

definition PortfolioPerformanceData :: "loaded \<Rightarrow> bool \<Rightarrow> error + (state \<times> string list)" where
  "PortfolioPerformanceData data_dict silent =
     (let items = [(''exchanges'', exchanges_csv data_dict),
                   (''prices'', prices_csv data_dict),
                   (''weights'', weights_csv data_dict)]
      in case get_full_range_for_dates items of
           Inl e \<Rightarrow> Inl e
         | Inr (general_index, bad_keys) \<Rightarrow>
             (case reindex_or_drop general_index (exchanges_csv data_dict) of
                Inl e \<Rightarrow> Inl e
              | Inr exchanges_df \<Rightarrow>
             (case reindex_or_drop general_index (prices_csv data_dict) of
                Inl e \<Rightarrow> Inl e
              | Inr prices_df \<Rightarrow>
             (case reindex_or_drop general_index (weights_csv data_dict) of
                Inl e \<Rightarrow> Inl e
              | Inr weights_df \<Rightarrow>
                  Inr (\<lparr>df_raw =
                          \<lparr>currencies = currencies_csv data_dict,
                           exchanges = exchanges_df, prices = prices_df,
                           weights = weights_df\<rparr>,
                        df_asset = None, df_currency = None, df_currency_raw = None,
                        df_total = None\<rparr>,
                       if silent then []
                       else map (\<lambda>key. key @ '' index is corrupted and it will not be used'')
                              [key. (key, Some t) \<leftarrow> items, key \<in> set bad_keys])))))"


section \<open>Finite cells and compounding in closed form\<close>

text \<open>
  The statements the computed tables are compared with. \<open>finite_cell\<close> holds of the real
  numbers, \<open>real_of\<close> reads one, and \<open>no_infinity\<close> holds of a list of points whose values
  are real numbers or NaN. \<open>compound\<close> is the product of \<open>1 + return\<close> over the real
  returns of a list of points, which is 1 for the empty list; \<open>float_compound\<close> is the
  same product in floating-point arithmetic over all the defined returns, in their order.
\<close>

definition finite_cell :: "cell \<Rightarrow> bool" where
  "finite_cell v = (case v of Some (Fin x) \<Rightarrow> True | _ \<Rightarrow> False)"

definition real_of :: "cell \<Rightarrow> real" where
  "real_of v = (case v of Some (Fin x) \<Rightarrow> x | _ \<Rightarrow> 0)"

definition no_infinity :: "(date \<times> cell) list \<Rightarrow> bool" where
  "no_infinity ps = list_all (\<lambda>p. snd p = None \<or> finite_cell (snd p)) ps"

definition compound :: "(date \<times> cell) list \<Rightarrow> real" where
  "compound ps = prod_list [1 + x. (d, Some (Fin x)) \<leftarrow> ps]"

fun factors :: "(date \<times> cell) list \<Rightarrow> cell list" where
  "factors [] = []"
| "factors ((d, None) # ps) = factors ps"
| "factors ((d, Some x) # ps) = fadd (Some x) (Some (Fin 1)) # factors ps"

definition float_compound :: "(date \<times> cell) list \<Rightarrow> cell" where
  "float_compound ps = foldl fmul (Some (Fin 1)) (factors ps)"


section \<open>A small portfolio\<close>

text \<open>
  Three days (2013-02-01 to 2013-02-03 are the days 15737 to 15739), two assets with the
  weights 1/2 and 1/2; asset \<open>A\<close> is quoted in \<open>EUR\<close>, asset \<open>B\<close> in a currency the
  exchange table does not list. A table is written as the list of its real cells; the
  other cells are NaN.
\<close>

definition table_of :: "((date \<times> string) \<times> real) list \<Rightarrow> date \<Rightarrow> string \<Rightarrow> cell" where
  "table_of xs d c = map_option Fin (map_of xs (d, c))"

definition demo_prices :: frame where
  "demo_prices =
     \<lparr>index = [15737, 15738, 15739], columns = [''A'', ''B''], dtypes = (\<lambda>c. Float64),
      cell = table_of [((15737, ''A''), 100), ((15738, ''A''), 110), ((15739, ''A''), 121),
                       ((15737, ''B''), 10), ((15738, ''B''), 10), ((15739, ''B''), 20)]\<rparr>"

definition demo_weights :: frame where
  "demo_weights =
     \<lparr>index = [15737, 15738, 15739], columns = [''A'', ''B''], dtypes = (\<lambda>c. Float64),
      cell = table_of [((15737, ''A''), 1/2), ((15738, ''A''), 1/2), ((15739, ''A''), 1/2),
                       ((15737, ''B''), 1/2), ((15738, ''B''), 1/2), ((15739, ''B''), 1/2)]\<rparr>"

definition demo_exchanges :: frame where
  "demo_exchanges =
     \<lparr>index = [15737, 15738, 15739], columns = [''EUR''], dtypes = (\<lambda>c. Float64),
      cell = table_of [((15737, ''EUR''), 2), ((15738, ''EUR''), 2), ((15739, ''EUR''), 4)]\<rparr>"

definition demo_currencies :: "(string \<times> string) list" where
  "demo_currencies = [(''A'', ''EUR''), (''B'', ''USD'')]"

definition demo_loaded :: loaded where
  "demo_loaded =
     \<lparr>currencies_csv = Some demo_currencies,
      exchanges_csv = Some (Dated demo_exchanges),
      prices_csv = Some (Dated demo_prices),
      weights_csv = Some (Dated demo_weights)\<rparr>"

definition demo_state :: state where
  "demo_state =
     \<lparr>df_raw = \<lparr>currencies = Some demo_currencies, exchanges = Some demo_exchanges,
                prices = Some demo_prices, weights = Some demo_weights\<rparr>,
      df_asset = None, df_currency = None, df_currency_raw = None, df_total = None\<rparr>"

text \<open>
  The parameters used with it: the parser of the spec, and a slice for other bounds
  that always raises. No call with two positional dates that convert reaches the
  latter.
\<close>

definition demo_pandas :: pandas where
  "demo_pandas =
     \<lparr>to_datetime = to_datetime_Ymd,
      getitem_slice = (\<lambda>s a b. Inl (OtherError ''slice by a bound that is no timestamp''))\<rparr>"

text \<open>The portfolio returns of the three days under these weights.\<close>

definition demo_portfolio_returns :: series where
  "demo_portfolio_returns =
     \<lparr>name = None,
      points = [(15737, None), (15738, Some (Fin (1/20))), (15739, Some (Fin (11/20)))]\<rparr>"

text \<open>The returns of the two assets; the first day has none.\<close>

definition demo_returns :: frame where
  "demo_returns =
     \<lparr>index = [15737, 15738, 15739], columns = [''A'', ''B''], dtypes = (\<lambda>c. Float64),
      cell = table_of [((15738, ''A''), 1/10), ((15739, ''A''), 1/10),
                       ((15738, ''B''), 0), ((15739, ''B''), 1)]\<rparr>"

text \<open>
  A return table with the single asset \<open>A\<close> beside a weights table that also lists \<open>B\<close>.
\<close>

definition narrow_returns :: frame where
  "narrow_returns =
     \<lparr>index = [15738], columns = [''A''], dtypes = (\<lambda>c. Float64),
      cell = table_of [((15738, ''A''), 1/10)]\<rparr>"

definition wide_weights :: frame where
  "wide_weights =
     \<lparr>index = [15738], columns = [''A'', ''B''], dtypes = (\<lambda>c. Float64),
      cell = table_of [((15738, ''A''), 1/2), ((15738, ''B''), 1/2)]\<rparr>"

definition wide_state :: state where
  "wide_state =
     \<lparr>df_raw = \<lparr>currencies = None, exchanges = None, prices = None,
                weights = Some wide_weights\<rparr>,
      df_asset = None, df_currency = None, df_currency_raw = None, df_total = None\<rparr>"

text \<open>
  The same portfolio with an exchange rate of zero on the second day, as files and as an
  object; and the files without the weights.
\<close>

definition zero_rate_exchanges :: frame where
  "zero_rate_exchanges =
     \<lparr>index = [15737, 15738, 15739], columns = [''EUR''], dtypes = (\<lambda>c. Float64),
      cell = table_of [((15737, ''EUR''), 2), ((15738, ''EUR''), 0), ((15739, ''EUR''), 4)]\<rparr>"

definition zero_rate_loaded :: loaded where
  "zero_rate_loaded = demo_loaded\<lparr>exchanges_csv := Some (Dated zero_rate_exchanges)\<rparr>"

definition zero_rate_no_weights_loaded :: loaded where
  "zero_rate_no_weights_loaded = zero_rate_loaded\<lparr>weights_csv := None\<rparr>"

definition zero_rate_state :: state where
  "zero_rate_state =
     demo_state\<lparr>df_raw := (df_raw demo_state)\<lparr>exchanges := Some zero_rate_exchanges\<rparr>\<rparr>"

text \<open>One asset whose price is 0, 5, 0 on the three days, held with the weight 1.\<close>

definition zero_price_prices :: frame where
  "zero_price_prices =
     \<lparr>index = [15737, 15738, 15739], columns = [''A''], dtypes = (\<lambda>c. Float64),
      cell = table_of [((15737, ''A''), 0), ((15738, ''A''), 5), ((15739, ''A''), 0)]\<rparr>"

definition zero_price_weights :: frame where
  "zero_price_weights =
     \<lparr>index = [15737, 15738, 15739], columns = [''A''], dtypes = (\<lambda>c. Float64),
      cell = table_of [((15737, ''A''), 1), ((15738, ''A''), 1), ((15739, ''A''), 1)]\<rparr>"

definition zero_price_loaded :: loaded where
  "zero_price_loaded =
     \<lparr>currencies_csv = None, exchanges_csv = None,
      prices_csv = Some (Dated zero_price_prices),
      weights_csv = Some (Dated zero_price_weights)\<rparr>"

text \<open>A return series with two undefined entries.\<close>

definition gap_returns :: series where
  "gap_returns =
     \<lparr>name = None,
      points = [(15737, None), (15738, Some (Fin (1/2))), (15739, None),
                (15740, Some (Fin 1))]\<rparr>"


section \<open>Cells\<close>

lemma fadd_None [simp]: "fadd None b = None" "fadd a None = None"
  by (simp_all add: fadd_def split: option.splits)

lemma fadd_Fin [simp]: "fadd (Some (Fin x)) (Some (Fin y)) = Some (Fin (x + y))"
  by (simp add: fadd_def)

lemma fmul_None [simp]: "fmul None b = None" "fmul a None = None"
  by (simp_all add: fmul_def split: option.splits)

lemma fmul_Fin [simp]: "fmul (Some (Fin x)) (Some (Fin y)) = Some (Fin (x * y))"
  by (simp add: fmul_def)

lemma fsub_None [simp]: "fsub None b = None" "fsub a None = None"
  by (simp_all add: fsub_def)

lemma fsub_Fin [simp]: "fsub (Some (Fin x)) (Some (Fin y)) = Some (Fin (x - y))"
  by (simp add: fsub_def)

lemma fdiv_None [simp]: "fdiv None b = None" "fdiv a None = None"
  by (simp_all add: fdiv_def split: option.splits)

lemma finite_cell_iff: "finite_cell v \<longleftrightarrow> v = Some (Fin (real_of v))"
  by (auto simp: finite_cell_def real_of_def split: option.splits xreal.splits)

lemma finite_cell_Fin [simp]: "finite_cell (Some (Fin x))" "real_of (Some (Fin x)) = x"
  by (simp_all add: finite_cell_def real_of_def)

lemma finite_cell_None [simp]: "\<not> finite_cell None"
  by (simp add: finite_cell_def)

section \<open>The weighted sum of a date\<close>

lemma set_align_union [simp]: "set (align_union xs ys) = set xs \<union> set ys"
  by (auto simp: align_union_def)

lemma align_union_same [simp]: "align_union xs xs = xs"
  by (simp add: align_union_def)

lemma foldl_fadd_None [simp]: "foldl fadd None vs = None"
  by (induction vs) simp_all

lemma foldl_fadd_strict: "None \<in> set vs \<Longrightarrow> foldl fadd acc vs = None"
proof (induction vs arbitrary: acc)
  case Nil
  then show ?case by simp
next
  case (Cons v vs)
  show ?case
  proof (cases v)
    case None
    then show ?thesis by simp
  next
    case (Some x)
    with Cons.prems have "None \<in> set vs" by auto
    then show ?thesis by (simp add: Cons.IH)
  qed
qed

lemma foldl_fadd_finite:
  "list_all finite_cell vs \<Longrightarrow>
   foldl fadd (Some (Fin a)) vs = Some (Fin (a + sum_list (map real_of vs)))"
proof (induction vs arbitrary: a)
  case Nil
  then show ?case by simp
next
  case (Cons v vs)
  then obtain x where v: "v = Some (Fin x)"
    by (auto simp: finite_cell_iff)
  from Cons.prems have "list_all finite_cell vs" by simp
  then show ?case
    by (simp add: v Cons.IH add.assoc)
qed

lemma cell_at_frame_binop:
  "cell_at (frame_binop f a b) d c =
     (if d \<in> set (index a) \<union> set (index b) \<and> c \<in> set (columns a) \<union> set (columns b)
      then f (cell_at a d c) (cell_at b d c) else None)"
  by (simp add: cell_at_def frame_binop_def)

lemma get_a_portfolio_points:
  assumes "weights (df_raw self) = Some w"
  shows "get_a_portfolio self (Some df) =
     Inr (Some \<lparr>name = None,
           points = map (\<lambda>d. (d, foldl fadd (Some (Fin 0))
                                   (map (\<lambda>c. fmul (cell_at df d c) (cell_at w d c))
                                      (align_union (columns df) (columns w)))))
                      (align_union (index df) (index w))\<rparr>)"
proof -
  have "map (cell_at (frame_binop fmul df w) d) (align_union (columns df) (columns w))
        = map (\<lambda>c. fmul (cell_at df d c) (cell_at w d c)) (align_union (columns df) (columns w))"
    if "d \<in> set (align_union (index df) (index w))" for d
    using that by (simp add: cell_at_frame_binop)
  then have "map (\<lambda>d. (d, foldl fadd (Some (Fin 0))
                 (map (cell_at (frame_binop fmul df w) d) (align_union (columns df) (columns w)))))
               (align_union (index df) (index w))
           = map (\<lambda>d. (d, foldl fadd (Some (Fin 0))
                 (map (\<lambda>c. fmul (cell_at df d c) (cell_at w d c))
                    (align_union (columns df) (columns w)))))
               (align_union (index df) (index w))"
    by (intro map_cong refl) (simp only:)
  moreover have "index (frame_binop fmul df w) = align_union (index df) (index w)"
    "columns (frame_binop fmul df w) = align_union (columns df) (columns w)"
    by (simp_all add: frame_binop_def)
  ultimately show ?thesis
    using assms
    by (simp only: get_a_portfolio_def df_checker_def sum_axis1_def option.case sum.case)
qed


lemma fmul_finite:
  "finite_cell a \<Longrightarrow> finite_cell b \<Longrightarrow>
   finite_cell (fmul a b) \<and> real_of (fmul a b) = real_of a * real_of b"
  by (auto simp: finite_cell_iff [of a] finite_cell_iff [of b])
     (metis finite_cell_Fin fmul_Fin)+



section \<open>Assets listed in one table only\<close>

text \<open>
  The claim that an asset listed in one table only contributes nothing fails: asset \<open>B\<close>
  has a weight and no return column, every cell of both tables is defined, and the
  aggregate of the date is undefined instead of \<open>1/10 * 1/2\<close>.
\<close>

theorem aggregate_over_shared_columns_counterexample:
  "columns narrow_returns = [''A''] \<and> columns wide_weights = [''A'', ''B''] \<and>
   cell_at narrow_returns 15738 ''A'' = Some (Fin (1/10)) \<and>
   cell_at wide_weights 15738 ''A'' = Some (Fin (1/2)) \<and>
   cell_at wide_weights 15738 ''B'' = Some (Fin (1/2)) \<and>
   weights (df_raw wide_state) = Some wide_weights \<and>
   get_a_portfolio wide_state (Some narrow_returns) =
     Inr (Some \<lparr>name = None, points = [(15738, None)]\<rparr>)"
proof -
  have "columns narrow_returns = [''A'']" "columns wide_weights = [''A'', ''B'']"
    "weights (df_raw wide_state) = Some wide_weights"
    by (simp_all add: narrow_returns_def wide_weights_def wide_state_def)
  moreover have "cell_at narrow_returns 15738 ''A'' = Some (Fin (1/10))"
    "cell_at wide_weights 15738 ''A'' = Some (Fin (1/2))"
    "cell_at wide_weights 15738 ''B'' = Some (Fin (1/2))"
    by code_simp+
  moreover have "get_a_portfolio wide_state (Some narrow_returns) =
     Inr (Some \<lparr>name = None, points = [(15738, None)]\<rparr>)"
    by code_simp
  ultimately show ?thesis
    by (intro conjI)
qed

text \<open>
  C4, amended. The two tables are aligned on the union of their asset columns, not on the
  intersection: an asset identifier that only one of the two tables lists has an undefined
  product at every date, and the strict sum makes the aggregate undefined at every date.
\<close>

theorem column_in_one_table_only:
  assumes "weights (df_raw self) = Some w"
    and "c \<in> set (columns df) \<union> set (columns w)"
    and "c \<notin> set (columns df) \<inter> set (columns w)"
  shows "get_a_portfolio self (Some df) =
     Inr (Some \<lparr>name = None,
           points = map (\<lambda>d. (d, None)) (align_union (index df) (index w))\<rparr>)"
proof -
  let ?cols = "align_union (columns df) (columns w)"
  have "foldl fadd (Some (Fin 0)) (map (\<lambda>c. fmul (cell_at df d c) (cell_at w d c)) ?cols) = None"
    for d
  proof -
    have "cell_at df d c = None \<or> cell_at w d c = None"
      using assms(3) by (auto simp: cell_at_def)
    then have "fmul (cell_at df d c) (cell_at w d c) = None"
      by auto
    moreover have "c \<in> set ?cols"
      using assms(2) by simp
    ultimately have "None \<in> (\<lambda>c. fmul (cell_at df d c) (cell_at w d c)) ` set ?cols"
      by (metis (mono_tags, lifting) image_eqI)
    then have "None \<in> set (map (\<lambda>c. fmul (cell_at df d c) (cell_at w d c)) ?cols)"
      by (simp only: set_map)
    then show ?thesis
      by (rule foldl_fadd_strict)
  qed
  then show ?thesis
    by (simp only: get_a_portfolio_points [OF assms(1)])
qed

theorem column_in_one_table_only_witness:
  "weights (df_raw wide_state) = Some wide_weights \<and>
   ''B'' \<in> set (columns narrow_returns) \<union> set (columns wide_weights) \<and>
   ''B'' \<notin> set (columns narrow_returns) \<inter> set (columns wide_weights) \<and>
   get_a_portfolio wide_state (Some narrow_returns) =
     Inr (Some \<lparr>name = None, points = [(15738, None)]\<rparr>)"
proof -
  have w: "weights (df_raw wide_state) = Some wide_weights"
    by (simp add: wide_state_def)
  have b: "''B'' \<in> set (columns narrow_returns) \<union> set (columns wide_weights)"
    "''B'' \<notin> set (columns narrow_returns) \<inter> set (columns wide_weights)"
    by (simp_all add: narrow_returns_def wide_weights_def)
  have "align_union (index narrow_returns) (index wide_weights) = [15738]"
    by (simp add: narrow_returns_def wide_weights_def align_union_def)
  then show ?thesis
    using w b column_in_one_table_only [OF w b] by simp
qed


section \<open>The running product\<close>

lemma add_one_Some: "\<exists>y. fadd (Some x) (Some (Fin k)) = Some y"
  by (cases x) (simp_all add: fadd_def)

lemma fst_add_one [simp]: "map (fst \<circ> (\<lambda>(d, v). (d, f v))) xs = map fst xs"
  by (induction xs) auto

lemma cumprod_from_dates [simp]: "map fst (cumprod_from acc xs) = map fst xs"
  by (induction acc xs rule: cumprod_from.induct) simp_all

lemma cumprod_from_length [simp]: "length (cumprod_from acc xs) = length xs"
  by (induction acc xs rule: cumprod_from.induct) simp_all

lemma performance_points:
  "points (cumprod (add_scalar s 1)) =
     cumprod_from (Some (Fin 1)) (map (\<lambda>(d, v). (d, fadd v (Some (Fin 1)))) (points s))"
  by (simp add: cumprod_def add_scalar_def)

lemma performance_length [simp]:
  "length (points (cumprod (add_scalar s 1))) = length (points s)"
  by (simp add: performance_points)

lemma portfolio_performance_Some:
  "portfolio_performance pd (Some s) (Stamp (Day a)) (Stamp (Day b)) nm =
     Inr (Some \<lparr>name = Some nm,
           points = drop (searchsorted_left (map fst (points s)) a)
                      (take (searchsorted_right (map fst (points s)) b)
                         (points (cumprod (add_scalar s 1))))\<rparr>)"
  by (cases s)
     (simp add: portfolio_performance_def df_checker_def slice_labels_def rename_def
        cumprod_def add_scalar_def Let_def)

lemma portfolio_performance_None [simp]:
  "portfolio_performance pd None b1 b2 nm = Inr None"
  by (simp add: portfolio_performance_def df_checker_def)

lemma factors_append: "factors (ps @ qs) = factors ps @ factors qs"
  by (induction ps rule: factors.induct) simp_all

lemma compound_Nil [simp]: "compound [] = 1"
  by (simp add: compound_def)

lemma compound_Cons [simp]:
  "compound ((d, None) # ps) = compound ps"
  "compound ((d, Some (Fin x)) # ps) = (1 + x) * compound ps"
  "compound ((d, Some (Infinity b)) # ps) = compound ps"
  by (simp_all add: compound_def)

lemma cumprod_from_nth:
  "i < length ps \<Longrightarrow>
   cumprod_from acc (map (\<lambda>(d, v). (d, fadd v (Some (Fin 1)))) ps) ! i =
     (fst (ps ! i),
      case snd (ps ! i) of
        None \<Rightarrow> None
      | Some y \<Rightarrow> foldl fmul acc (factors (take (Suc i) ps)))"
proof (induction ps arbitrary: acc i)
  case Nil
  then show ?case by simp
next
  case (Cons p ps)
  obtain d v where p: "p = (d, v)" by (cases p)
  show ?case
  proof (cases v)
    case None
    show ?thesis
    proof (cases i)
      case 0
      then show ?thesis by (simp add: p None)
    next
      case (Suc k)
      with Cons.prems have "k < length ps" by simp
      then show ?thesis
        using Cons.IH [of k acc] by (simp add: p None Suc cong: option.case_cong)
    qed
  next
    case (Some x)
    obtain y where y: "fadd (Some x) (Some (Fin 1)) = Some y"
      using add_one_Some by blast
    show ?thesis
    proof (cases i)
      case 0
      then show ?thesis by (simp add: p Some y)
    next
      case (Suc k)
      with Cons.prems have "k < length ps" by simp
      then show ?thesis
        using Cons.IH [of k "fmul acc (Some y)"] by (simp add: p Some Suc y cong: option.case_cong)
    qed
  qed
qed

lemma performance_nth:
  assumes "i < length (points s)"
  shows "points (cumprod (add_scalar s 1)) ! i =
     (fst (points s ! i),
      case snd (points s ! i) of
        None \<Rightarrow> None
      | Some y \<Rightarrow> float_compound (take (Suc i) (points s)))"
  using cumprod_from_nth [OF assms, of "Some (Fin 1)"]
  by (simp add: performance_points float_compound_def cong: option.case_cong)

lemma foldl_fmul_finite:
  "no_infinity ps \<Longrightarrow> foldl fmul (Some (Fin a)) (factors ps) = Some (Fin (a * compound ps))"
proof (induction ps arbitrary: a)
  case Nil
  then show ?case by simp
next
  case (Cons p ps)
  obtain d v where p: "p = (d, v)" by (cases p)
  from Cons.prems have rest: "no_infinity ps"
    by (simp add: no_infinity_def)
  show ?case
  proof (cases v)
    case None
    then show ?thesis
      using Cons.IH [OF rest, of a] by (simp add: p)
  next
    case (Some x)
    with Cons.prems obtain r where r: "x = Fin r"
      by (auto simp: no_infinity_def p finite_cell_iff)
    show ?thesis
      using Cons.IH [OF rest, of "a * (r + 1)"]
      by (simp add: p Some r algebra_simps)
  qed
qed

lemma float_compound_finite:
  "no_infinity ps \<Longrightarrow> float_compound ps = Some (Fin (compound ps))"
  using foldl_fmul_finite [of ps 1] by (simp add: float_compound_def)

lemma no_infinity_take: "no_infinity ps \<Longrightarrow> no_infinity (take n ps)"
  unfolding no_infinity_def list_all_iff by (meson in_set_takeD)

lemma float_compound_step:
  assumes "i < length ps" "ps ! i = (d', Some x)"
  shows "float_compound (take (Suc i) ps)
         = fmul (float_compound (take i ps)) (fadd (Some x) (Some (Fin 1)))"
  using assms
  by (simp add: float_compound_def take_Suc_conv_app_nth factors_append)


section \<open>Where the compounding starts\<close>

text \<open>
  The claim that the first value inside the window is \<open>1 * (1 + return)\<close> wherever the
  window starts fails: with the window starting at the third day the first value is the
  product over all three days, \<open>651/400\<close>, not \<open>1 + 11/20\<close>.
\<close>

theorem window_start_is_not_one_counterexample:
  "fst (get_asset_portfolio demo_state) = Inr (Some demo_portfolio_returns) \<and>
   fst (calculate_asset_performance demo_pandas demo_state [PyInt 20130203, PyInt 20130203] [])
     = Inr (Some \<lparr>name = Some ''Pt'', points = [(15739, Some (Fin (651/400)))]\<rparr>) \<and>
   (651/400 :: real) \<noteq> 1 * (1 + 11/20)"
proof -
  have "fst (get_asset_portfolio demo_state) = Inr (Some demo_portfolio_returns)"
    by code_simp
  moreover have
    "fst (calculate_asset_performance demo_pandas demo_state [PyInt 20130203, PyInt 20130203] [])
     = Inr (Some \<lparr>name = Some ''Pt'', points = [(15739, Some (Fin (651/400)))]\<rparr>)"
    by code_simp
  moreover have "(651/400 :: real) \<noteq> 1 * (1 + 11/20)"
    by simp
  ultimately show ?thesis
    by (intro conjI)
qed

text \<open>
  C2, amended. The performance series is the window cut out of the running product over
  the whole return series. Between two consecutive dates with defined entries
  \<open>performance[t] = performance[t-1] * (1 + return[t])\<close>, in floating-point arithmetic
  and so, for real numbers, as real numbers. The value at a date with a defined return is
  the product of \<open>1 + return\<close> over all defined returns from the first date of the whole
  series up to that date, in floating-point arithmetic and, when no return up to that
  date is infinite, as the real product: the implicit value 1 stands before the first
  date of the return series, not before the start of the window.
\<close>

theorem compounding_starts_at_series_start:
  "portfolio_performance pd (Some s) (Stamp (Day start_date)) (Stamp (Day end_date)) nm =
     Inr (Some \<lparr>name = Some nm,
           points = drop (searchsorted_left (map fst (points s)) start_date)
                      (take (searchsorted_right (map fst (points s)) end_date)
                         (points (cumprod (add_scalar s 1))))\<rparr>) \<and>
   (\<forall>i d p d' x. Suc i < length (points s) \<and>
        points (cumprod (add_scalar s 1)) ! i = (d, Some p) \<and>
        points s ! Suc i = (d', Some x) \<longrightarrow>
        points (cumprod (add_scalar s 1)) ! Suc i
          = (d', fmul (Some p) (fadd (Some x) (Some (Fin 1))))) \<and>
   (\<forall>i d p d' x. Suc i < length (points s) \<and>
        points (cumprod (add_scalar s 1)) ! i = (d, Some (Fin p)) \<and>
        points s ! Suc i = (d', Some (Fin x)) \<longrightarrow>
        points (cumprod (add_scalar s 1)) ! Suc i = (d', Some (Fin (p * (1 + x))))) \<and>
   (\<forall>i d x. i < length (points s) \<and> points s ! i = (d, Some x) \<longrightarrow>
        points (cumprod (add_scalar s 1)) ! i = (d, float_compound (take (Suc i) (points s)))) \<and>
   (\<forall>i d x. i < length (points s) \<and> points s ! i = (d, Some x) \<and>
        no_infinity (take (Suc i) (points s)) \<longrightarrow>
        points (cumprod (add_scalar s 1)) ! i
          = (d, Some (Fin (compound (take (Suc i) (points s))))))"
proof -
  let ?perf = "points (cumprod (add_scalar s 1))"
  have closed: "?perf ! i = (d, float_compound (take (Suc i) (points s)))"
    if "i < length (points s)" "points s ! i = (d, Some x)" for i d x
    using that by (simp add: performance_nth)
  have step: "?perf ! Suc i = (d', fmul (Some p) (fadd (Some x) (Some (Fin 1))))"
    if h: "Suc i < length (points s)" "?perf ! i = (d, Some p)"
      "points s ! Suc i = (d', Some x)" for i d p d' x
  proof -
    from h(1) have i: "i < length (points s)" by simp
    from h(2) have "float_compound (take (Suc i) (points s)) = Some p"
      using performance_nth [OF i] by (auto split: option.splits)
    moreover have "float_compound (take (Suc (Suc i)) (points s))
        = fmul (float_compound (take (Suc i) (points s))) (fadd (Some x) (Some (Fin 1)))"
      using h(1,3) by (rule float_compound_step)
    ultimately show ?thesis
      using closed [OF h(1,3)] by simp
  qed
  show ?thesis
  proof (intro conjI allI impI)
    show "portfolio_performance pd (Some s) (Stamp (Day start_date)) (Stamp (Day end_date)) nm =
       Inr (Some \<lparr>name = Some nm,
             points = drop (searchsorted_left (map fst (points s)) start_date)
                        (take (searchsorted_right (map fst (points s)) end_date) ?perf)\<rparr>)"
      by (rule portfolio_performance_Some)
  next
    fix i d p d' x
    assume "Suc i < length (points s) \<and> ?perf ! i = (d, Some p) \<and>
            points s ! Suc i = (d', Some x)"
    then show "?perf ! Suc i = (d', fmul (Some p) (fadd (Some x) (Some (Fin 1))))"
      using step by blast
  next
    fix i d and p :: real and d' and x :: real
    assume "Suc i < length (points s) \<and> ?perf ! i = (d, Some (Fin p)) \<and>
            points s ! Suc i = (d', Some (Fin x))"
    then have "?perf ! Suc i = (d', fmul (Some (Fin p)) (fadd (Some (Fin x)) (Some (Fin 1))))"
      using step by blast
    then show "?perf ! Suc i = (d', Some (Fin (p * (1 + x))))"
      by (simp add: add.commute)
  next
    fix i d x
    assume "i < length (points s) \<and> points s ! i = (d, Some x)"
    then show "?perf ! i = (d, float_compound (take (Suc i) (points s)))"
      using closed by blast
  next
    fix i d x
    assume h: "i < length (points s) \<and> points s ! i = (d, Some x) \<and>
               no_infinity (take (Suc i) (points s))"
    then have "?perf ! i = (d, float_compound (take (Suc i) (points s)))"
      using closed by blast
    with h show "?perf ! i = (d, Some (Fin (compound (take (Suc i) (points s)))))"
      by (simp add: float_compound_finite)
  qed
qed

theorem compounding_starts_at_series_start_witness:
  "points (cumprod (add_scalar demo_portfolio_returns 1)) ! 1 = (15738, Some (Fin (21/20))) \<and>
   points demo_portfolio_returns ! 2 = (15739, Some (Fin (11/20))) \<and>
   points (cumprod (add_scalar demo_portfolio_returns 1)) ! 2 = (15739, Some (Fin (651/400))) \<and>
   portfolio_performance demo_pandas (Some demo_portfolio_returns)
       (Stamp (Day 15739)) (Stamp (Day 15739)) ''Pt''
     = Inr (Some \<lparr>name = Some ''Pt'', points = [(15739, Some (Fin (651/400)))]\<rparr>)"
proof -
  note th = compounding_starts_at_series_start
              [of demo_pandas demo_portfolio_returns 15739 15739 "''Pt''"]
  have one: "points (cumprod (add_scalar demo_portfolio_returns 1)) ! 1
               = (15738, Some (Fin (21/20)))"
    by code_simp
  have two: "points demo_portfolio_returns ! 2 = (15739, Some (Fin (11/20)))"
    by code_simp
  have len: "Suc 1 < length (points demo_portfolio_returns)"
    by (simp add: demo_portfolio_returns_def)
  from th [THEN conjunct2, THEN conjunct2, THEN conjunct1, rule_format,
           of 1 15738 "21/20" 15739 "11/20"]
  have three: "points (cumprod (add_scalar demo_portfolio_returns 1)) ! 2
                 = (15739, Some (Fin (651/400)))"
    using one two len by (simp add: numeral_2_eq_2)
  have "drop (searchsorted_left (map fst (points demo_portfolio_returns)) 15739)
          (take (searchsorted_right (map fst (points demo_portfolio_returns)) 15739)
             (points (cumprod (add_scalar demo_portfolio_returns 1))))
        = [(15739, Some (Fin (651/400)))]"
    by code_simp
  with th [THEN conjunct1]
  have "portfolio_performance demo_pandas (Some demo_portfolio_returns)
       (Stamp (Day 15739)) (Stamp (Day 15739)) ''Pt''
     = Inr (Some \<lparr>name = Some ''Pt'', points = [(15739, Some (Fin (651/400)))]\<rparr>)"
    by simp
  then show ?thesis
    using one two three by (intro conjI)
qed


section \<open>The running product skips undefined returns\<close>

lemma performance_nth_finite:
  assumes "no_infinity (points s)" "i < length (points s)"
  shows "points (cumprod (add_scalar s 1)) ! i =
     (fst (points s ! i),
      case snd (points s ! i) of
        None \<Rightarrow> None
      | Some y \<Rightarrow> Some (Fin (compound (take (Suc i) (points s)))))"
  using performance_nth [OF assms(2)] no_infinity_take [OF assms(1), of "Suc i"]
  by (simp add: float_compound_finite cong: option.case_cong)

lemma performance_finite:
  assumes "no_infinity (points s)"
  shows "points (cumprod (add_scalar s 1)) =
     map (\<lambda>i. (fst (points s ! i),
                case snd (points s ! i) of
                  None \<Rightarrow> None
                | Some y \<Rightarrow> Some (Fin (compound (take (Suc i) (points s))))))
       [0..<length (points s)]"
  by (rule nth_equalityI)
     (simp_all add: performance_nth_finite [OF assms] cong: option.case_cong)





section \<open>The right end of the window\<close>

lemma slice_sorted:
  assumes "sorted (map fst ps)"
  shows "drop (searchsorted_left (map fst ps) start_date)
           (take (searchsorted_right (map fst ps) end_date) ps)
         = filter (\<lambda>(d, v). start_date \<le> d \<and> d \<le> end_date) ps"
proof -
  have right: "take (length (takeWhile (\<lambda>x. x \<le> end_date) (map fst ps))) ps
               = filter (\<lambda>(d, v). d \<le> end_date) ps"
    using assms
  proof (induction ps)
    case Nil
    then show ?case by simp
  next
    case (Cons p ps)
    show ?case
    proof (cases "fst p \<le> end_date")
      case True
      with Cons show ?thesis by (auto simp: case_prod_unfold)
    next
      case False
      with Cons.prems have "\<forall>q \<in> set ps. \<not> fst q \<le> end_date"
        by auto
      then have "filter (\<lambda>(d, v). d \<le> end_date) ps = []"
        by (auto simp: filter_empty_conv)
      with False show ?thesis by (simp add: case_prod_unfold)
    qed
  qed
  have left: "drop (length (takeWhile (\<lambda>x. x < start_date) (map fst ps))) qs
              = filter (\<lambda>(d, v). start_date \<le> d) qs"
    if "sorted (map fst ps)" "qs = filter (\<lambda>(d, v). d \<le> end_date) ps"
    for qs
    using that
  proof (induction ps arbitrary: qs)
    case Nil
    then show ?case by simp
  next
    case (Cons p ps)
    show ?case
    proof (cases "fst p < start_date")
      case True
      with Cons show ?thesis by (auto simp: case_prod_unfold)
    next
      case False
      with Cons.prems(1) have "\<forall>q \<in> set (p # ps). start_date \<le> fst q"
        by auto
      then have "\<forall>q \<in> set qs. start_date \<le> fst q"
        using Cons.prems(2) by auto
      then have "filter (\<lambda>(d, v). start_date \<le> d) qs = qs"
        by (auto simp: filter_id_conv)
      with False show ?thesis by simp
    qed
  qed
  have "drop (length (takeWhile (\<lambda>x. x < start_date) (map fst ps)))
          (filter (\<lambda>(d, v). d \<le> end_date) ps)
        = filter (\<lambda>(d, v). start_date \<le> d) (filter (\<lambda>(d, v). d \<le> end_date) ps)"
    by (rule left [OF assms refl])
  also have "\<dots> = filter (\<lambda>(d, v). start_date \<le> d \<and> d \<le> end_date) ps"
    by (simp add: case_prod_unfold conj_commute)
  finally show ?thesis
    unfolding searchsorted_left_def searchsorted_right_def right .
qed

lemma performance_window_inclusive:
  assumes "sorted (map fst (points s))"
  shows "\<exists>r. portfolio_performance pd (Some s) (Stamp (Day start_date)) (Stamp (Day end_date)) nm
               = Inr (Some r) \<and>
           map fst (points r) =
             filter (\<lambda>d. start_date \<le> d \<and> d \<le> end_date) (map fst (points s))"
proof -
  let ?perf = "points (cumprod (add_scalar s 1))"
  have dates: "map fst ?perf = map fst (points s)"
    by (simp add: performance_points)
  then have "sorted (map fst ?perf)"
    using assms by simp
  then have "drop (searchsorted_left (map fst ?perf) start_date)
               (take (searchsorted_right (map fst ?perf) end_date) ?perf)
             = filter (\<lambda>(d, v). start_date \<le> d \<and> d \<le> end_date) ?perf"
    by (rule slice_sorted)
  moreover have "map fst (filter (\<lambda>(d, v). P d) xs) = filter P (map fst xs)"
    for P and xs :: "(date \<times> cell) list"
    by (induction xs) auto
  ultimately have "map fst (drop (searchsorted_left (map fst ?perf) start_date)
               (take (searchsorted_right (map fst ?perf) end_date) ?perf))
             = filter (\<lambda>d. start_date \<le> d \<and> d \<le> end_date) (map fst ?perf)"
    by (simp only:)
  then show ?thesis
    unfolding portfolio_performance_Some dates by simp
qed

text \<open>
  C1. The docstring of \<open>__portfolio_performance\<close> calls \<open>end_date\<close> the right border,
  excluded; the slice by label includes it. On the three days of the small portfolio,
  built from its files by the constructor, the window from 2013-02-01 to 2013-02-02
  contains 2013-02-02 (day 15738).
\<close>

theorem end_date_is_included:
  "try_convert_date_time demo_pandas (PyInt 20130202) = Inr (Some (Day 15738)) \<and>
   (case PortfolioPerformanceData demo_loaded True of
      Inl e \<Rightarrow> False
    | Inr (portfolio, out) \<Rightarrow>
        fst (calculate_asset_performance demo_pandas portfolio
               [PyInt 20130201, PyInt 20130202] [])
          = Inr (Some \<lparr>name = Some ''Pt'',
                       points = [(15737, None), (15738, Some (Fin (21/20)))]\<rparr>) \<and>
        fst (calculate_currency_performance demo_pandas portfolio
               [PyInt 20130201, PyInt 20130202] [])
          = Inr (Some \<lparr>name = Some ''CPt'',
                       points = [(15737, None), (15738, Some (Fin 1))]\<rparr>) \<and>
        fst (calculate_total_performance demo_pandas portfolio
               [PyInt 20130201, PyInt 20130202] [])
          = Inr (Some \<lparr>name = Some ''TPt'',
                       points = [(15737, None), (15738, Some (Fin (21/20)))]\<rparr>))"
  by code_simp


section \<open>Calls with positional and with keyword dates\<close>

lemma date_checker_raises:
  "convert_args pd args = Inl e \<Longrightarrow> date_checker pd func self args kwargs = (Inl e, self)"
  by (simp add: date_checker_def)

lemma convert_args_False:
  assumes "try_convert_date_time pd a1 = Inr None \<or>
           (\<exists>t. try_convert_date_time pd a1 = Inr (Some t)) \<and>
           try_convert_date_time pd a2 = Inr None"
  shows "convert_args pd [a1, a2] = Inl (TypeError date_format_message)"
  using assms by auto

lemma convert_args_two:
  assumes "try_convert_date_time pd a1 = Inr (Some t1)"
    "try_convert_date_time pd a2 = Inr (Some t2)"
  shows "convert_args pd [a1, a2] = Inr [t1, t2]"
  using assms by simp

lemma positional_date_raises:
  assumes "try_convert_date_time pd a1 = Inr None \<or>
           (\<exists>t. try_convert_date_time pd a1 = Inr (Some t)) \<and>
           try_convert_date_time pd a2 = Inr None"
  shows "calculate_asset_performance pd self [a1, a2] []
           = (Inl (TypeError date_format_message), self)"
    and "calculate_currency_performance pd self [a1, a2] []
           = (Inl (TypeError date_format_message), self)"
    and "calculate_total_performance pd self [a1, a2] []
           = (Inl (TypeError date_format_message), self)"
  using convert_args_False [OF assms]
  by (simp_all add: calculate_asset_performance_def calculate_currency_performance_def
      calculate_total_performance_def date_checker_raises)

lemma positional_call:
  assumes "try_convert_date_time pd a1 = Inr (Some t1)"
    "try_convert_date_time pd a2 = Inr (Some t2)"
  shows "date_checker pd (performance_method pd portfolio nm) self [a1, a2] [] =
     (case portfolio self of
        (Inl e, self') \<Rightarrow> (Inl e, self')
      | (Inr pf, self') \<Rightarrow> (portfolio_performance pd pf (Stamp t1) (Stamp t2) nm, self'))"
  using convert_args_two [OF assms]
  by (simp add: date_checker_def performance_method_def bind_dates_def)

lemma keyword_call:
  "date_checker pd (performance_method pd portfolio nm) self []
       [(''start_date'', a), (''end_date'', b)] =
     (case portfolio self of
        (Inl e, self') \<Rightarrow> (Inl e, self')
      | (Inr pf, self') \<Rightarrow>
          (portfolio_performance pd pf (bound_of_keyword a) (bound_of_keyword b) nm, self'))"
  by (simp add: date_checker_def performance_method_def bind_dates_def)

lemma portfolio_performance_other_bounds:
  "portfolio_performance pd (Some s) (Raw a) b nm =
     (case getitem_slice pd (rename (cumprod (add_scalar s 1)) nm) (Raw a) b of
        Inl KeyError \<Rightarrow> Inr None
      | Inl e \<Rightarrow> Inl e
      | Inr r \<Rightarrow> Inr (Some r))"
  by (simp add: portfolio_performance_def df_checker_def slice_labels_def
      split: sum.splits error.splits)

text \<open>
  C7. A date that does not convert raises the \<open>TypeError\<close> of \<open>date_checker\<close>, and
  leaves the object as it was, only when it is passed by position. The wrapper hands
  the keyword arguments to the method unconverted and unchecked. For every pandas, the
  call of \<open>calculate_asset_performance\<close> with the 9-digit string \<open>201901200\<close> as the
  keyword \<open>start_date\<close> runs the body: the cache of asset returns, empty before the
  call, holds the return table after it, and the result is whatever the slice of the
  performance series by the raw string and the raw integer gives.
\<close>

theorem keyword_dates_are_not_checked:
  "try_convert_date_time demo_pandas (PyStr ''201901200'') = Inr None \<and>
   calculate_asset_performance demo_pandas demo_state [PyStr ''201901200'', PyInt 20190120] []
     = (Inl (TypeError date_format_message), demo_state) \<and>
   Option.is_none (df_asset demo_state) \<and>
   map_option rows
     (df_asset (snd (calculate_asset_performance pd demo_state []
                       [(''start_date'', PyStr ''201901200''), (''end_date'', PyInt 20190120)])))
     = Some [[None, None], [Some (Fin (1/10)), Some (Fin 0)], [Some (Fin (1/10)), Some (Fin 1)]] \<and>
   fst (calculate_asset_performance pd demo_state []
          [(''start_date'', PyStr ''201901200''), (''end_date'', PyInt 20190120)])
     = (case getitem_slice pd
               \<lparr>name = Some ''Pt'',
                points = [(15737, None), (15738, Some (Fin (21/20))),
                          (15739, Some (Fin (651/400)))]\<rparr>
               (Raw (PyStr ''201901200'')) (Raw (PyInt 20190120)) of
          Inl KeyError \<Rightarrow> Inr None
        | Inl e \<Rightarrow> Inl e
        | Inr r \<Rightarrow> Inr (Some r))"
proof -
  have bad: "try_convert_date_time demo_pandas (PyStr ''201901200'') = Inr None"
    by code_simp
  have fresh: "Option.is_none (df_asset demo_state)"
    by (simp add: demo_state_def)
  have pf: "fst (get_asset_portfolio demo_state) = Inr (Some demo_portfolio_returns)"
    by code_simp
  have cache: "map_option rows (df_asset (snd (get_asset_portfolio demo_state)))
     = Some [[None, None], [Some (Fin (1/10)), Some (Fin 0)], [Some (Fin (1/10)), Some (Fin 1)]]"
    by code_simp
  have perf: "rename (cumprod (add_scalar demo_portfolio_returns 1)) ''Pt''
     = \<lparr>name = Some ''Pt'',
        points = [(15737, None), (15738, Some (Fin (21/20))), (15739, Some (Fin (651/400)))]\<rparr>"
    by code_simp
  obtain st where st: "get_asset_portfolio demo_state = (Inr (Some demo_portfolio_returns), st)"
    using pf by (cases "get_asset_portfolio demo_state") simp
  have call: "calculate_asset_performance pd demo_state []
                [(''start_date'', PyStr ''201901200''), (''end_date'', PyInt 20190120)]
     = (portfolio_performance pd (Some demo_portfolio_returns)
          (Raw (PyStr ''201901200'')) (Raw (PyInt 20190120)) ''Pt'', st)"
    by (simp add: calculate_asset_performance_def keyword_call st bound_of_keyword_def)
  have "calculate_asset_performance demo_pandas demo_state
          [PyStr ''201901200'', PyInt 20190120] []
     = (Inl (TypeError date_format_message), demo_state)"
    using bad by (simp add: positional_date_raises)
  moreover have "map_option rows
     (df_asset (snd (calculate_asset_performance pd demo_state []
                       [(''start_date'', PyStr ''201901200''), (''end_date'', PyInt 20190120)])))
     = Some [[None, None], [Some (Fin (1/10)), Some (Fin 0)], [Some (Fin (1/10)), Some (Fin 1)]]"
    using cache by (simp add: call st)
  moreover have "fst (calculate_asset_performance pd demo_state []
          [(''start_date'', PyStr ''201901200''), (''end_date'', PyInt 20190120)])
     = (case getitem_slice pd
               \<lparr>name = Some ''Pt'',
                points = [(15737, None), (15738, Some (Fin (21/20))),
                          (15739, Some (Fin (651/400)))]\<rparr>
               (Raw (PyStr ''201901200'')) (Raw (PyInt 20190120)) of
          Inl KeyError \<Rightarrow> Inr None
        | Inl e \<Rightarrow> Inl e
        | Inr r \<Rightarrow> Inr (Some r))"
    by (simp only: call fst_conv portfolio_performance_other_bounds perf)
  ultimately show ?thesis
    using bad fresh by (intro conjI)
qed


section \<open>A window whose start is after its end\<close>

lemma slice_reversed:
  "end_date < start_date \<Longrightarrow>
   drop (searchsorted_left ds start_date) (take (searchsorted_right ds end_date) ps) = []"
proof -
  assume lt: "end_date < start_date"
  have "length (takeWhile (\<lambda>x. x \<le> end_date) ds) \<le> length (takeWhile (\<lambda>x. x < start_date) ds)"
    using lt by (induction ds) auto
  then show ?thesis
    by (simp add: searchsorted_left_def searchsorted_right_def)
qed

lemma performance_reversed:
  "end_date < start_date \<Longrightarrow>
   portfolio_performance pd (Some s) (Stamp (Day start_date)) (Stamp (Day end_date)) nm
     = Inr (Some \<lparr>name = Some nm, points = []\<rparr>)"
  by (simp add: portfolio_performance_Some slice_reversed)

lemma reversed_window_without_error:
  assumes "try_convert_date_time pd a1 = Inr (Some (Day start_date))"
    and "try_convert_date_time pd a2 = Inr (Some (Day end_date))"
    and "end_date < start_date"
    and "fst (portfolio self) = Inr (Some s)"
  shows "fst (date_checker pd (performance_method pd portfolio nm) self [a1, a2] [])
           = Inr (Some \<lparr>name = Some nm, points = []\<rparr>)"
  using assms(3,4)
  by (cases "portfolio self")
     (simp add: positional_call [OF assms(1,2)] performance_reversed)

text \<open>
  C8. With all four files present, two dates that convert and the start after the end,
  the asset operation returns the empty series, but the currency operation raises
  \<open>ZeroDivisionError\<close> when an exchange rate is zero: the return table is computed
  before the window is looked at, and the resolved currency table holds boxed values,
  whose quotient by zero raises.
\<close>

theorem reversed_window_raises_on_zero_rate:
  "try_convert_date_time demo_pandas (PyInt 20190120) = Inr (Some (Day 17916)) \<and>
   try_convert_date_time demo_pandas (PyInt 20130201) = Inr (Some (Day 15737)) \<and>
   (case PortfolioPerformanceData zero_rate_loaded True of
      Inl e \<Rightarrow> False
    | Inr (portfolio, out) \<Rightarrow>
        fst (calculate_asset_performance demo_pandas portfolio
               [PyInt 20190120, PyInt 20130201] [])
          = Inr (Some \<lparr>name = Some ''Pt'', points = []\<rparr>) \<and>
        fst (calculate_currency_performance demo_pandas portfolio
               [PyInt 20190120, PyInt 20130201] [])
          = Inl ZeroDivisionError)"
  by code_simp


section \<open>Returns\<close>

lemma return_of_reals:
  "fdiv (fsub (Some (Fin a)) (Some (Fin b))) (Some (Fin b)) =
     (if b = 0 then (if a = 0 then None else Some (Infinity (0 < a)))
      else Some (Fin ((a - b) / b)))"
  by (simp add: fdiv_def fsub_def fadd_def)

lemma prev_label_first: "d \<notin> set (tl xs) \<Longrightarrow> prev_label xs d = None"
  by (induction xs d rule: prev_label.induct) auto

lemma prev_label_nth:
  "distinct xs \<Longrightarrow> 0 < t \<Longrightarrow> t < length xs \<Longrightarrow> prev_label xs (xs ! t) = Some (xs ! (t - 1))"
proof (induction xs arbitrary: t)
  case Nil
  then show ?case by simp
next
  case (Cons x xs)
  note outer = Cons
  show ?case
  proof (cases xs)
    case Nil
    with outer show ?thesis by simp
  next
    case (Cons y ys)
    show ?thesis
    proof (cases "t = 1")
      case True
      with Cons show ?thesis by simp
    next
      case False
      with outer(3) obtain k where k: "t = Suc k" "0 < k"
        by (cases t) auto
      with outer(4) have klen: "k < length xs" by simp
      have "xs ! k \<noteq> y"
        using outer(2) Cons k(2) klen
        by (auto simp: nth_eq_iff_index_eq [of "y # ys" k 0])
      moreover have "prev_label xs (xs ! k) = Some (xs ! (k - 1))"
        using outer(1) [of k] outer(2) k(2) klen by simp
      ultimately show ?thesis
        using Cons k by (cases k) auto
    qed
  qed
qed

lemma cell_at_shift:
  "cell_at (shift df) d c =
     (case prev_label (index df) d of None \<Rightarrow> None | Some p \<Rightarrow> cell_at df p c)"
proof (cases "d \<in> set (index df) \<and> c \<in> set (columns df)")
  case True
  then show ?thesis by (simp add: cell_at_def shift_def)
next
  case False
  have "prev_label (index df) d = None" if "d \<notin> set (index df)"
  proof (rule prev_label_first)
    show "d \<notin> set (tl (index df))"
      using that by (cases "index df") auto
  qed
  moreover have "cell_at df p c = None" if "c \<notin> set (columns df)" for p
    using that by (simp add: cell_at_def)
  ultimately show ?thesis
    using False by (auto simp: cell_at_def shift_def split: option.splits)
qed

lemma cell_at_diff:
  "cell_at (diff df) d c = fsub (cell_at df d c) (cell_at (shift df) d c)"
  by (simp add: cell_at_def diff_def shift_def)

lemma attitude_frame:
  "index (frame_binop fdiv (diff df) (shift df)) = index df"
  "columns (frame_binop fdiv (diff df) (shift df)) = columns df"
  by (simp_all add: frame_binop_def diff_def shift_def)

lemma cell_at_attitude:
  "cell_at (frame_binop fdiv (diff df) (shift df)) d c =
     fdiv (fsub (cell_at df d c) (cell_at (shift df) d c)) (cell_at (shift df) d c)"
  by (simp add: cell_at_frame_binop cell_at_diff) (simp add: cell_at_def diff_def shift_def)

lemma attitude_first_row:
  assumes "distinct (index df)"
  shows "cell_at (frame_binop fdiv (diff df) (shift df)) (hd (index df)) c = None"
proof -
  have "hd (index df) \<notin> set (tl (index df))"
    using assms by (cases "index df") auto
  then have "prev_label (index df) (hd (index df)) = None"
    by (rule prev_label_first)
  then show ?thesis
    by (simp add: cell_at_attitude cell_at_shift)
qed

lemma attitude_later_row:
  assumes "distinct (index df)" "0 < t" "t < length (index df)"
  shows "cell_at (frame_binop fdiv (diff df) (shift df)) (index df ! t) c =
           fdiv (fsub (cell_at df (index df ! t) c) (cell_at df (index df ! (t - 1)) c))
                (cell_at df (index df ! (t - 1)) c)"
  using prev_label_nth [OF assms]
  by (simp add: cell_at_attitude cell_at_shift)

lemma cell_at_product:
  "cell_at (frame_binop fmul a b) d c = fmul (cell_at a d c) (cell_at b d c)"
  by (auto simp: cell_at_frame_binop) (simp_all add: cell_at_def)

lemma returns_raise:
  "zero_divisor df \<Longrightarrow> get_an_attitude (Some df) = Inl ZeroDivisionError"
  by (simp add: get_an_attitude_def df_checker_def)

lemma returns_formula:
  assumes "distinct (index df)" "\<not> zero_divisor df"
  shows "\<exists>y. get_an_attitude (Some df) = Inr (Some y) \<and>
           index y = index df \<and> columns y = columns df \<and>
           (\<forall>c. cell_at y (hd (index df)) c = None) \<and>
           (\<forall>t c. 0 < t \<and> t < length (index df) \<longrightarrow>
              cell_at y (index df ! t) c =
                fdiv (fsub (cell_at df (index df ! t) c) (cell_at df (index df ! (t - 1)) c))
                     (cell_at df (index df ! (t - 1)) c))"
  using attitude_first_row [OF assms(1)] attitude_later_row [OF assms(1)] assms(2)
  by (simp add: get_an_attitude_def df_checker_def attitude_frame)

text \<open>
  C5. The return table of a numeric table is \<open>(X[t] - X[t-1]) / X[t-1]\<close> below an
  undefined first row, with an infinite return after a zero (the asset priced 0, 5, 0).
  The resolved currency table holds boxed values: with an exchange rate of zero the
  same transform raises \<open>ZeroDivisionError\<close> and there is no currency return table at
  all. On the small portfolio, where no rate is zero, the three return tables are those
  of the prices, of the resolved currency table and of their cell-by-cell product.
\<close>

theorem currency_returns_raise_on_zero_rate:
  "(case PortfolioPerformanceData zero_rate_loaded True of
      Inl e \<Rightarrow> False
    | Inr (portfolio, out) \<Rightarrow>
        map_option rows (df_currency_raw (snd (generate_currency portfolio)))
          = Some [[Some (Fin 2), Some (Fin 1)], [Some (Fin 0), Some (Fin 1)],
                  [Some (Fin 4), Some (Fin 1)]] \<and>
        fst (generate_currency portfolio) = Inl ZeroDivisionError \<and>
        Option.is_none (df_currency (snd (generate_currency portfolio)))) \<and>
   (case PortfolioPerformanceData zero_price_loaded True of
      Inl e \<Rightarrow> False
    | Inr (portfolio, out) \<Rightarrow>
        fst (generate_asset portfolio) = Inr () \<and>
        map_option rows (df_asset (snd (generate_asset portfolio)))
          = Some [[None], [Some (Infinity True)], [Some (Fin (- 1))]]) \<and>
   (case PortfolioPerformanceData demo_loaded True of
      Inl e \<Rightarrow> False
    | Inr (portfolio, out) \<Rightarrow>
        map_option rows (df_asset (snd (generate_asset portfolio)))
          = Some [[None, None], [Some (Fin (1/10)), Some (Fin 0)],
                  [Some (Fin (1/10)), Some (Fin 1)]] \<and>
        map_option rows (df_currency (snd (generate_currency portfolio)))
          = Some [[None, None], [Some (Fin 0), Some (Fin 0)], [Some (Fin 1), Some (Fin 0)]] \<and>
        map_option rows (df_total (snd (generate_total portfolio)))
          = Some [[None, None], [Some (Fin (1/10)), Some (Fin 0)],
                  [Some (Fin (6/5)), Some (Fin 1)]])"
proof (intro conjI)
  show "case PortfolioPerformanceData zero_rate_loaded True of
      Inl e \<Rightarrow> False
    | Inr (portfolio, out) \<Rightarrow>
        map_option rows (df_currency_raw (snd (generate_currency portfolio)))
          = Some [[Some (Fin 2), Some (Fin 1)], [Some (Fin 0), Some (Fin 1)],
                  [Some (Fin 4), Some (Fin 1)]] \<and>
        fst (generate_currency portfolio) = Inl ZeroDivisionError \<and>
        Option.is_none (df_currency (snd (generate_currency portfolio)))"
    by code_simp
  show "case PortfolioPerformanceData zero_price_loaded True of
      Inl e \<Rightarrow> False
    | Inr (portfolio, out) \<Rightarrow>
        fst (generate_asset portfolio) = Inr () \<and>
        map_option rows (df_asset (snd (generate_asset portfolio)))
          = Some [[None], [Some (Infinity True)], [Some (Fin (- 1))]]"
    by code_simp
  show "case PortfolioPerformanceData demo_loaded True of
      Inl e \<Rightarrow> False
    | Inr (portfolio, out) \<Rightarrow>
        map_option rows (df_asset (snd (generate_asset portfolio)))
          = Some [[None, None], [Some (Fin (1/10)), Some (Fin 0)],
                  [Some (Fin (1/10)), Some (Fin 1)]] \<and>
        map_option rows (df_currency (snd (generate_currency portfolio)))
          = Some [[None, None], [Some (Fin 0), Some (Fin 0)], [Some (Fin 1), Some (Fin 0)]] \<and>
        map_option rows (df_total (snd (generate_total portfolio)))
          = Some [[None, None], [Some (Fin (1/10)), Some (Fin 0)],
                  [Some (Fin (6/5)), Some (Fin 1)]]"
    by code_simp
qed


section \<open>The resolved currency table\<close>

lemma get_currency_raw_Some:
  assumes "currencies (df_raw self) = Some cd" "exchanges (df_raw self) = Some ex"
  shows "get_currency_raw self =
     Some \<lparr>index = index ex, columns = map fst cd,
           dtypes = (\<lambda>a. if a \<in> set (new_columns (merge_df cd ex)) then Float64 else Object),
           cell = (\<lambda>d a. if a \<in> set (new_columns (merge_df cd ex))
                          then fillna (cell_at (merge_df cd ex) d a) 1
                          else cell_at (merge_df cd ex) d a)\<rparr>"
  using assms by (simp add: get_currency_raw_def Let_def merge_df_def cong: if_cong)

lemma new_columns_iff:
  "a \<in> set (new_columns m) \<longleftrightarrow>
     a \<in> set (columns m) \<and> (\<forall>d \<in> set (index m). cell_at m d a = None)"
  by (simp add: new_columns_def list_all_iff)

lemma merge_df_labels [simp]:
  "index (merge_df cd ex) = index ex" "columns (merge_df cd ex) = map fst cd"
  by (simp_all add: merge_df_def)

lemma merge_df_unlisted:
  assumes "map_of cd a = Some cur" "cur \<notin> set (columns ex)"
  shows "cell_at (merge_df cd ex) d a = None"
  using assms by (simp add: merge_df_def cell_at_def)

text \<open>
  C9. Without the currency definition or without the exchange table the resolver gives
  \<open>None\<close>. With both it gives a table over the dates of the exchange table with one column
  per row of the currency definition, and a column that the merge left undefined at
  every date, as the column of an asset whose currency the exchange table does not list,
  holds 1 at every date.
\<close>

theorem unresolved_currency_columns_are_one:
  "(currencies (df_raw self) = None \<or> exchanges (df_raw self) = None \<longrightarrow>
      get_currency_raw self = None) \<and>
   (currencies (df_raw self) = Some cd \<and> exchanges (df_raw self) = Some ex \<longrightarrow>
      (\<exists>r. get_currency_raw self = Some r \<and>
           index r = index ex \<and> columns r = map fst cd \<and>
           (\<forall>a \<in> set (map fst cd).
              (\<forall>d \<in> set (index ex). cell_at (merge_df cd ex) d a = None) \<longrightarrow>
              (\<forall>d \<in> set (index ex). cell_at r d a = Some (Fin 1))) \<and>
           (\<forall>a cur. map_of cd a = Some cur \<and> cur \<notin> set (columns ex) \<longrightarrow>
              (\<forall>d \<in> set (index ex). cell_at r d a = Some (Fin 1)))))"
proof (intro conjI impI)
  assume "currencies (df_raw self) = None \<or> exchanges (df_raw self) = None"
  then show "get_currency_raw self = None"
    by (auto simp: get_currency_raw_def split: option.splits)
next
  assume both: "currencies (df_raw self) = Some cd \<and> exchanges (df_raw self) = Some ex"
  let ?m = "merge_df cd ex"
  let ?r = "\<lparr>index = index ex, columns = map fst cd,
            dtypes = (\<lambda>a. if a \<in> set (new_columns ?m) then Float64 else Object),
            cell = (\<lambda>d a. if a \<in> set (new_columns ?m)
                           then fillna (cell_at ?m d a) 1 else cell_at ?m d a)\<rparr>"
  have r: "get_currency_raw self = Some ?r"
    using both by (simp add: get_currency_raw_Some)
  have filled: "cell_at ?r d a = Some (Fin 1)"
    if "a \<in> set (map fst cd)" "\<forall>d \<in> set (index ex). cell_at ?m d a = None"
      "d \<in> set (index ex)" for a d
  proof -
    have "a \<in> set (new_columns ?m)"
      using that(1,2) by (simp add: new_columns_iff)
    moreover have "cell_at ?m d a = None"
      using that(2,3) by blast
    ultimately show ?thesis
      using that(1,3) by (simp add: cell_at_def [of ?r] fillna_def)
  qed
  have unlisted: "cell_at ?r d a = Some (Fin 1)"
    if "map_of cd a = Some cur" "cur \<notin> set (columns ex)" "d \<in> set (index ex)" for a cur d
  proof -
    have "a \<in> set (map fst cd)"
      using that(1) by (metis map_of_SomeD fst_conv image_eqI list.set_map)
    moreover have "\<forall>d \<in> set (index ex). cell_at ?m d a = None"
      using merge_df_unlisted [OF that(1,2)] by simp
    ultimately show ?thesis
      using filled that(3) by blast
  qed
  show "\<exists>r. get_currency_raw self = Some r \<and>
           index r = index ex \<and> columns r = map fst cd \<and>
           (\<forall>a \<in> set (map fst cd).
              (\<forall>d \<in> set (index ex). cell_at (merge_df cd ex) d a = None) \<longrightarrow>
              (\<forall>d \<in> set (index ex). cell_at r d a = Some (Fin 1))) \<and>
           (\<forall>a cur. map_of cd a = Some cur \<and> cur \<notin> set (columns ex) \<longrightarrow>
              (\<forall>d \<in> set (index ex). cell_at r d a = Some (Fin 1)))"
  proof (intro exI [of _ ?r] conjI)
    show "get_currency_raw self = Some ?r" by (rule r)
    show "index ?r = index ex" "columns ?r = map fst cd" by simp_all
    show "\<forall>a \<in> set (map fst cd).
              (\<forall>d \<in> set (index ex). cell_at (merge_df cd ex) d a = None) \<longrightarrow>
              (\<forall>d \<in> set (index ex). cell_at ?r d a = Some (Fin 1))"
      using filled by blast
    show "\<forall>a cur. map_of cd a = Some cur \<and> cur \<notin> set (columns ex) \<longrightarrow>
              (\<forall>d \<in> set (index ex). cell_at ?r d a = Some (Fin 1))"
      using unlisted by blast
  qed
qed

theorem unresolved_currency_columns_are_one_witness:
  "currencies (df_raw demo_state) = Some demo_currencies \<and>
   exchanges (df_raw demo_state) = Some demo_exchanges \<and>
   map_of demo_currencies ''B'' = Some ''USD'' \<and> ''USD'' \<notin> set (columns demo_exchanges) \<and>
   (\<exists>r. get_currency_raw demo_state = Some r \<and> columns r = [''A'', ''B''] \<and>
        cell_at r 15737 ''B'' = Some (Fin 1) \<and> cell_at r 15738 ''B'' = Some (Fin 1) \<and>
        cell_at r 15739 ''B'' = Some (Fin 1))"
proof -
  have both: "currencies (df_raw demo_state) = Some demo_currencies \<and>
    exchanges (df_raw demo_state) = Some demo_exchanges"
    by (simp add: demo_state_def)
  have usd: "map_of demo_currencies ''B'' = Some ''USD'' \<and> ''USD'' \<notin> set (columns demo_exchanges)"
    by (simp add: demo_currencies_def demo_exchanges_def)
  from unresolved_currency_columns_are_one
         [of demo_state demo_currencies demo_exchanges, THEN conjunct2, rule_format, OF both]
  obtain r where r: "get_currency_raw demo_state = Some r"
    and cols: "columns r = map fst demo_currencies"
    and one: "\<And>a cur d. map_of demo_currencies a = Some cur \<and> cur \<notin> set (columns demo_exchanges)
                \<Longrightarrow> d \<in> set (index demo_exchanges) \<Longrightarrow> cell_at r d a = Some (Fin 1)"
    by blast
  have "cell_at r 15737 ''B'' = Some (Fin 1)" "cell_at r 15738 ''B'' = Some (Fin 1)"
    "cell_at r 15739 ''B'' = Some (Fin 1)"
    by (rule one [OF usd], simp add: demo_exchanges_def)+
  moreover have "columns r = [''A'', ''B'']"
    using cols by (simp add: demo_currencies_def)
  ultimately show ?thesis
    using both usd r by blast
qed


section \<open>Missing and corrupted tables\<close>

text \<open>
  C6. A missing result is not always \<open>None\<close>. With the weights file absent and an
  exchange rate of zero the asset operation returns \<open>None\<close> and the currency operation
  raises \<open>ZeroDivisionError\<close>: the return table is computed before the weights are
  looked at. Where no rate is zero the pattern is the one of the tests: without the
  prices only the currency performance is there, without the currency definition or
  the exchange table only the asset performance, without the weights none of the three;
  and the constructor drops a table whose index is corrupted, as if its file were
  absent.
\<close>

theorem missing_weights_raise_on_zero_rate:
  "(case PortfolioPerformanceData zero_rate_no_weights_loaded True of
      Inl e \<Rightarrow> False
    | Inr (portfolio, out) \<Rightarrow>
        Option.is_none (weights (df_raw portfolio)) \<and>
        fst (calculate_asset_performance demo_pandas portfolio
               [PyInt 20130201, PyInt 20130203] []) = Inr None \<and>
        fst (calculate_currency_performance demo_pandas portfolio
               [PyInt 20130201, PyInt 20130203] []) = Inl ZeroDivisionError) \<and>
   map (\<lambda>self. map (\<lambda>operation.
                      map_sum id Option.is_none
                        (fst (operation demo_pandas self [PyInt 20130201, PyInt 20130203] [])))
                 [calculate_asset_performance, calculate_currency_performance,
                  calculate_total_performance])
     [demo_state\<lparr>df_raw := (df_raw demo_state)\<lparr>prices := None\<rparr>\<rparr>,
      demo_state\<lparr>df_raw := (df_raw demo_state)\<lparr>currencies := None\<rparr>\<rparr>,
      demo_state\<lparr>df_raw := (df_raw demo_state)\<lparr>exchanges := None\<rparr>\<rparr>,
      demo_state\<lparr>df_raw := (df_raw demo_state)\<lparr>weights := None\<rparr>\<rparr>]
     = [[Inr True, Inr False, Inr True],
        [Inr False, Inr True, Inr True],
        [Inr False, Inr True, Inr True],
        [Inr True, Inr True, Inr True]] \<and>
   map (\<lambda>files. case PortfolioPerformanceData files False of
                   Inl e \<Rightarrow> None
                 | Inr (portfolio, out) \<Rightarrow>
                     Some ((Option.is_none (exchanges (df_raw portfolio)),
                            Option.is_none (prices (df_raw portfolio)),
                            Option.is_none (weights (df_raw portfolio))), out))
     [demo_loaded\<lparr>exchanges_csv := Some Undated\<rparr>,
      demo_loaded\<lparr>prices_csv := Some Undated\<rparr>,
      demo_loaded\<lparr>weights_csv := Some Undated\<rparr>]
     = [Some ((True, False, False), [''exchanges index is corrupted and it will not be used'']),
        Some ((False, True, False), [''prices index is corrupted and it will not be used'']),
        Some ((False, False, True), [''weights index is corrupted and it will not be used''])]"
proof (intro conjI)
  show "case PortfolioPerformanceData zero_rate_no_weights_loaded True of
      Inl e \<Rightarrow> False
    | Inr (portfolio, out) \<Rightarrow>
        Option.is_none (weights (df_raw portfolio)) \<and>
        fst (calculate_asset_performance demo_pandas portfolio
               [PyInt 20130201, PyInt 20130203] []) = Inr None \<and>
        fst (calculate_currency_performance demo_pandas portfolio
               [PyInt 20130201, PyInt 20130203] []) = Inl ZeroDivisionError"
    by code_simp
  show "map (\<lambda>self. map (\<lambda>operation.
                      map_sum id Option.is_none
                        (fst (operation demo_pandas self [PyInt 20130201, PyInt 20130203] [])))
                 [calculate_asset_performance, calculate_currency_performance,
                  calculate_total_performance])
     [demo_state\<lparr>df_raw := (df_raw demo_state)\<lparr>prices := None\<rparr>\<rparr>,
      demo_state\<lparr>df_raw := (df_raw demo_state)\<lparr>currencies := None\<rparr>\<rparr>,
      demo_state\<lparr>df_raw := (df_raw demo_state)\<lparr>exchanges := None\<rparr>\<rparr>,
      demo_state\<lparr>df_raw := (df_raw demo_state)\<lparr>weights := None\<rparr>\<rparr>]
     = [[Inr True, Inr False, Inr True],
        [Inr False, Inr True, Inr True],
        [Inr False, Inr True, Inr True],
        [Inr True, Inr True, Inr True]]"
    by code_simp
  show "map (\<lambda>files. case PortfolioPerformanceData files False of
                   Inl e \<Rightarrow> None
                 | Inr (portfolio, out) \<Rightarrow>
                     Some ((Option.is_none (exchanges (df_raw portfolio)),
                            Option.is_none (prices (df_raw portfolio)),
                            Option.is_none (weights (df_raw portfolio))), out))
     [demo_loaded\<lparr>exchanges_csv := Some Undated\<rparr>,
      demo_loaded\<lparr>prices_csv := Some Undated\<rparr>,
      demo_loaded\<lparr>weights_csv := Some Undated\<rparr>]
     = [Some ((True, False, False), [''exchanges index is corrupted and it will not be used'']),
        Some ((False, True, False), [''prices index is corrupted and it will not be used'']),
        Some ((False, False, True), [''weights index is corrupted and it will not be used''])]"
    by code_simp
qed

end
